theory Spec2Isabelle
  imports Complex_Main "HOL-Library.Log_Nat"
begin

section \<open>Data model (types/common.ts)\<close>

text \<open>
  Row and column numbers are the zero-based indices of rendered cells, hence natural
  numbers. \<open>SelectedCells\<close> is the tagged record of the source (\<open>type\<close> plus the field
  of that name); the selection hook only ever builds values whose tag and populated
  field agree, so it is a datatype with one constructor per tag.
\<close>

record CellPosition =
  row :: nat
  column :: nat

record CellRange =
  start :: CellPosition
  end' :: CellPosition

datatype SelectedCells =
    Single CellPosition
  | Range CellRange
  | Multiple "CellPosition list"

record SelectionState =
  selectedCells :: "SelectedCells option"
  isSelecting :: bool
  selectionStart :: "CellPosition option"
  activeCell :: "CellPosition option"

datatype direction = Next | Previous

section \<open>Selection Engine (useSelection)\<close>

definition initialSelection :: SelectionState where
  "initialSelection =
     \<lparr>selectedCells = None, isSelecting = False, selectionStart = None, activeCell = None\<rparr>"

definition sameCell :: "CellPosition \<Rightarrow> CellPosition \<Rightarrow> bool" where
  "sameCell a b = (row a = row b \<and> column a = column b)"

definition selectCell :: "CellPosition \<Rightarrow> SelectionState \<Rightarrow> SelectionState" where
  "selectCell position prev =
     \<lparr>selectedCells = Some (Single position), isSelecting = False,
      selectionStart = None, activeCell = Some position\<rparr>"

definition selectRange :: "CellPosition \<Rightarrow> CellPosition \<Rightarrow> SelectionState \<Rightarrow> SelectionState" where
  "selectRange s e prev =
     prev\<lparr>selectedCells := Some (Range \<lparr>start = s, end' = e\<rparr>), isSelecting := False,
          selectionStart := None, activeCell := Some s\<rparr>"

text \<open>\<open>Array.prototype.findIndex\<close>: the first index whose element satisfies the test.\<close>

fun findIndex :: "('a \<Rightarrow> bool) \<Rightarrow> 'a list \<Rightarrow> nat option" where
  "findIndex P [] = None"
| "findIndex P (x # xs) =
     (if P x then Some 0 else (case findIndex P xs of None \<Rightarrow> None | Some i \<Rightarrow> Some (Suc i)))"

text \<open>\<open>xs.filter((_, index) => index !== k)\<close>.\<close>

definition filterIndexNot :: "nat \<Rightarrow> 'a list \<Rightarrow> 'a list" where
  "filterIndexNot k xs = map fst (filter (\<lambda>(x, index). index \<noteq> k) (zip xs [0..<length xs]))"

definition toggleCellSelection :: "CellPosition \<Rightarrow> SelectionState \<Rightarrow> SelectionState" where
  "toggleCellSelection position prev =
     (case selectedCells prev of
        None \<Rightarrow> prev\<lparr>selectedCells := Some (Single position)\<rparr>
      | Some (Single single) \<Rightarrow>
          (if sameCell single position then prev\<lparr>selectedCells := None\<rparr>
           else prev\<lparr>selectedCells := Some (Multiple [single, position])\<rparr>)
      | Some (Multiple multiple) \<Rightarrow>
          (case findIndex (\<lambda>cell. sameCell cell position) multiple of
             Some existingIndex \<Rightarrow>
               (let newMultiple = filterIndexNot existingIndex multiple in
                (case newMultiple of
                   [only] \<Rightarrow> prev\<lparr>selectedCells := Some (Single only)\<rparr>
                 | [] \<Rightarrow> prev\<lparr>selectedCells := None\<rparr>
                 | _ \<Rightarrow> prev\<lparr>selectedCells := Some (Multiple newMultiple)\<rparr>))
           | None \<Rightarrow> prev\<lparr>selectedCells := Some (Multiple (multiple @ [position]))\<rparr>)
      | Some (Range _) \<Rightarrow> prev\<lparr>selectedCells := Some (Single position)\<rparr>)"

definition startSelection :: "CellPosition \<Rightarrow> SelectionState \<Rightarrow> SelectionState" where
  "startSelection position prev =
     prev\<lparr>isSelecting := True, selectionStart := Some position,
          selectedCells := Some (Single position), activeCell := Some position\<rparr>"

definition updateSelection :: "CellPosition \<Rightarrow> SelectionState \<Rightarrow> SelectionState" where
  "updateSelection position prev =
     (case selectionStart prev of
        None \<Rightarrow> prev
      | Some anchor \<Rightarrow>
          (if \<not> isSelecting prev then prev
           else if sameCell anchor position
           then prev\<lparr>selectedCells := Some (Single position), activeCell := Some position\<rparr>
           else prev\<lparr>selectedCells := Some (Range \<lparr>start = anchor, end' = position\<rparr>),
                     activeCell := Some anchor\<rparr>))"

definition endSelection :: "SelectionState \<Rightarrow> SelectionState" where
  "endSelection prev = prev\<lparr>isSelecting := False, selectionStart := None\<rparr>"

definition clearSelection :: "SelectionState \<Rightarrow> SelectionState" where
  "clearSelection prev = initialSelection"

definition isCellSelected :: "SelectionState \<Rightarrow> CellPosition \<Rightarrow> bool" where
  "isCellSelected st position =
     (case selectedCells st of
        None \<Rightarrow> False
      | Some (Single single) \<Rightarrow> sameCell single position
      | Some (Range rg) \<Rightarrow> sameCell (start rg) position \<or> sameCell (end' rg) position
      | Some (Multiple multiple) \<Rightarrow> list_ex (\<lambda>cell. sameCell cell position) multiple)"

definition minRow :: "CellRange \<Rightarrow> nat" where "minRow rg = min (row (start rg)) (row (end' rg))"
definition maxRow :: "CellRange \<Rightarrow> nat" where "maxRow rg = max (row (start rg)) (row (end' rg))"
definition minCol :: "CellRange \<Rightarrow> nat" where
  "minCol rg = min (column (start rg)) (column (end' rg))"
definition maxCol :: "CellRange \<Rightarrow> nat" where
  "maxCol rg = max (column (start rg)) (column (end' rg))"

definition inBox :: "CellRange \<Rightarrow> CellPosition \<Rightarrow> bool" where
  "inBox rg position =
     (row position \<ge> minRow rg \<and> row position \<le> maxRow rg \<and>
      column position \<ge> minCol rg \<and> column position \<le> maxCol rg)"

definition isCellInRange :: "SelectionState \<Rightarrow> CellPosition \<Rightarrow> bool" where
  "isCellInRange st position =
     (case selectedCells st of Some (Range rg) \<Rightarrow> inBox rg position | _ \<Rightarrow> False)"

definition getCurrentCell :: "SelectionState \<Rightarrow> CellPosition option" where
  "getCurrentCell st =
     (case selectedCells st of Some (Single single) \<Rightarrow> Some single | _ \<Rightarrow> activeCell st)"

definition getActiveCell :: "SelectionState \<Rightarrow> CellPosition option" where
  "getActiveCell st = activeCell st"

text \<open>
  \<open>navigateWithinRange\<close> returns its boolean together with the state after the
  \<open>setSelectionState\<close> call it makes.
\<close>

definition navigateTarget :: "direction \<Rightarrow> CellRange \<Rightarrow> CellPosition \<Rightarrow> CellPosition" where
  "navigateTarget dir rg active =
     (case dir of
        Next \<Rightarrow>
          (if column active < maxCol rg then active\<lparr>column := column active + 1\<rparr>
           else if row active < maxRow rg then \<lparr>row = row active + 1, column = minCol rg\<rparr>
           else \<lparr>row = minRow rg, column = minCol rg\<rparr>)
      | Previous \<Rightarrow>
          (if column active > minCol rg then active\<lparr>column := column active - 1\<rparr>
           else if row active > minRow rg then \<lparr>row = row active - 1, column = maxCol rg\<rparr>
           else \<lparr>row = maxRow rg, column = maxCol rg\<rparr>))"

definition navigateWithinRange :: "direction \<Rightarrow> SelectionState \<Rightarrow> bool \<times> SelectionState" where
  "navigateWithinRange dir st =
     (case (selectedCells st, activeCell st) of
        (Some (Range rg), Some active) \<Rightarrow>
          (True, st\<lparr>activeCell := Some (navigateTarget dir rg active)\<rparr>)
      | _ \<Rightarrow> (False, st))"

subsection \<open>Flattening a selection (utils/formatting.ts)\<close>

text \<open>The two nested \<open>for\<close> loops of \<open>getSelectedCells\<close>, pushing onto \<open>cells\<close>.\<close>

function colLoop :: "nat \<Rightarrow> nat \<Rightarrow> nat \<Rightarrow> CellPosition list \<Rightarrow> CellPosition list" where
  "colLoop r col maxc cells =
     (if col \<le> maxc then colLoop r (col + 1) maxc (cells @ [\<lparr>row = r, column = col\<rparr>])
      else cells)"
  by pat_completeness auto
termination
  by (relation "measure (\<lambda>(r, col, maxc, cells). Suc maxc - col)") auto

function rowLoop :: "nat \<Rightarrow> nat \<Rightarrow> nat \<Rightarrow> nat \<Rightarrow> CellPosition list \<Rightarrow> CellPosition list" where
  "rowLoop r maxr minc maxc cells =
     (if r \<le> maxr then rowLoop (r + 1) maxr minc maxc (colLoop r minc maxc cells)
      else cells)"
  by pat_completeness auto
termination
  by (relation "measure (\<lambda>(r, maxr, minc, maxc, cells). Suc maxr - r)") auto

definition getSelectedCells :: "SelectionState \<Rightarrow> CellPosition list" where
  "getSelectedCells st =
     (case selectedCells st of
        None \<Rightarrow> []
      | Some (Single single) \<Rightarrow> [single]
      | Some (Range rg) \<Rightarrow> rowLoop (minRow rg) (maxRow rg) (minCol rg) (maxCol rg) []
      | Some (Multiple multiple) \<Rightarrow> multiple)"

declare colLoop.simps [simp del] rowLoop.simps [simp del]

section \<open>Cell metadata (types/common.ts)\<close>

datatype cellType = TextType | NumberType | CurrencyType | PercentageType | ProductType

datatype cellSection = Values | YoYGrowth | PercentOfTotal | ProductSection

datatype alignment = AlignLeft | AlignCenter | AlignRight

text \<open>
  Optional fields are options. \<open>id\<close> is declared mandatory, but the edit hook's own
  metadata helper builds a formatting object without one (under a
  \<open>@ts-expect-error\<close>), so the field is an option here as well.
\<close>

record CellFormatting =
  fmt_id :: "string option"
  bold :: "bool option"
  italic :: "bool option"
  strikethrough :: "bool option"
  alignment :: "alignment option"
  backgroundColor :: "string option"
  textColor :: "string option"

record CellMetadata =
  type :: cellType
  section' :: cellSection
  formatting :: "CellFormatting option"

datatype formattingType = Bold | Italic | Strikethrough

section \<open>Metadata Resolver (utils/formatting.ts)\<close>

text \<open>
  \<open>generateFormattingId\<close> reads the clock and the random generator; the identifier it
  returns is the parameter \<open>newId\<close>.
\<close>

definition getMetadataForCell :: "string \<Rightarrow> string \<Rightarrow> string \<Rightarrow> bool \<Rightarrow> CellMetadata" where
  "getMetadataForCell newId columnName sectionName isTotal =
     (if columnName = ''product'' then
        \<lparr>type = ProductType, section' = ProductSection,
         formatting = Some \<lparr>fmt_id = Some newId, bold = Some isTotal, italic = None,
           strikethrough = None, alignment = Some AlignLeft, backgroundColor = None,
           textColor = None\<rparr>\<rparr>
      else if sectionName = ''Values'' then
        \<lparr>type = CurrencyType, section' = Values,
         formatting = Some \<lparr>fmt_id = Some newId, bold = Some isTotal, italic = None,
           strikethrough = None, alignment = Some AlignLeft, backgroundColor = None,
           textColor = None\<rparr>\<rparr>
      else if sectionName = ''YoY Growth'' then
        \<lparr>type = PercentageType, section' = YoYGrowth,
         formatting = Some \<lparr>fmt_id = Some newId, bold = Some isTotal, italic = None,
           strikethrough = None, alignment = Some AlignLeft, backgroundColor = None,
           textColor = None\<rparr>\<rparr>
      else if sectionName = ''Percent of Total'' then
        \<lparr>type = PercentageType, section' = PercentOfTotal,
         formatting = Some \<lparr>fmt_id = Some newId, bold = Some isTotal, italic = None,
           strikethrough = None, alignment = Some AlignLeft, backgroundColor = None,
           textColor = None\<rparr>\<rparr>
      else
        \<lparr>type = TextType, section' = Values,
         formatting = Some \<lparr>fmt_id = Some newId, bold = None, italic = None,
           strikethrough = None, alignment = Some AlignLeft, backgroundColor = None,
           textColor = None\<rparr>\<rparr>)"

section \<open>The platform's string and number functions\<close>

text \<open>
  Strings are lists of 8-bit characters. \<open>trim\<close> and \<open>parseFloat\<close> skip the white
  space and line terminators of ECMAScript that fit in one such character.
\<close>

definition isWhiteSpace :: "char \<Rightarrow> bool" where
  "isWhiteSpace c = (of_char c \<in> {9, 10, 11, 12, 13, 32, 160 :: nat})"

definition trimStart :: "string \<Rightarrow> string" where
  "trimStart s = dropWhile isWhiteSpace s"


definition startsWith :: "string \<Rightarrow> string \<Rightarrow> bool" where
  "startsWith s p = (take (length p) s = p)"

fun includes' :: "string \<Rightarrow> string \<Rightarrow> bool" where
  "includes' [] p = (p = [])"
| "includes' (c # cs) p = (startsWith (c # cs) p \<or> includes' cs p)"

definition lowerChar :: "char \<Rightarrow> char" where
  "lowerChar c =
     (if 65 \<le> (of_char c :: nat) \<and> (of_char c :: nat) \<le> 90
      then char_of (of_char c + (32 :: nat)) else c)"

definition toLowerCase :: "string \<Rightarrow> string" where
  "toLowerCase s = map lowerChar s"

text \<open>
  A JavaScript number is an IEEE 754 double: not-a-number, the two infinities, negative
  zero, or a finite value (\<open>Finite 0\<close> is positive zero), kept as the rational it
  denotes.

  \<open>roundToDouble\<close> is the Number value of a non-negative mathematical value: the
  nearest double, ties to the even significand, with the binary exponent clamped at
  \<open>-1022\<close> for subnormals, and no result (overflow to infinity) when rounding reaches
  \<open>2 ^ 1024\<close>.
\<close>

datatype jsNumber = NaN | PosInfinity | NegInfinity | NegZero | Finite rat

definition isNaN :: "jsNumber \<Rightarrow> bool" where
  "isNaN n = (n = NaN)"

definition roundHalfEven :: "rat \<Rightarrow> int" where
  "roundHalfEven x =
     (let f = \<lfloor>x\<rfloor>; d = x - of_int f in
      if d < 1 / 2 then f else if d > 1 / 2 then f + 1 else if even f then f else f + 1)"

text \<open>The binary exponent of a positive rational: \<open>2 powi e \<le> q < 2 powi (e + 1)\<close>.\<close>

definition floorLog2 :: "rat \<Rightarrow> int" where
  "floorLog2 q =
     (let (a, b) = quotient_of q; d = bitlen a - bitlen b in
      if 2 powi d \<le> q then d else d - 1)"

definition roundToDouble :: "rat \<Rightarrow> rat option" where
  "roundToDouble q =
     (if q = 0 then Some 0
      else
        (let e = max (floorLog2 q) (- 1022);
             quantum = 2 powi (e - 52);
             r = of_int (roundHalfEven (q / quantum)) * quantum
         in if r \<ge> 2 ^ 1024 then None else Some r))"

text \<open>
  \<open>parseFloat\<close> follows the \<open>StrDecimalLiteral\<close> grammar: after leading white space,
  the longest prefix that is an optional sign followed by \<open>Infinity\<close> or by digits,
  fraction and exponent. \<open>parsePrefix\<close> finds that prefix and gives its sign and
  mathematical value; there is none exactly when \<open>parseFloat\<close> is \<open>NaN\<close>.
  \<open>numberValue\<close> is the literal's Number value; a negative literal whose magnitude
  rounds to zero is negative zero. (For a literal of more than twenty significant
  digits the standard lets an engine round an approximation instead; the rounding
  here is the exact one.)
\<close>

datatype strLiteral = InfinityLiteral bool | DecimalLiteral bool rat

definition isDecimalDigit :: "char \<Rightarrow> bool" where
  "isDecimalDigit c = (c \<in> set ''0123456789'')"

definition digitsValue :: "string \<Rightarrow> nat" where
  "digitsValue ds = foldl (\<lambda>acc d. 10 * acc + (of_char d - 48)) 0 ds"

definition splitSign :: "string \<Rightarrow> bool \<times> string" where
  "splitSign s =
     (case s of
        [] \<Rightarrow> (False, s)
      | c # cs \<Rightarrow>
          if c = CHR ''-'' then (True, cs) else if c = CHR ''+'' then (False, cs) else (False, s))"

definition exponentValue :: "string \<Rightarrow> int" where
  "exponentValue s =
     (case s of
        [] \<Rightarrow> 0
      | c # cs \<Rightarrow>
          if c = CHR ''e'' \<or> c = CHR ''E'' then
            (let (negative, rest) = splitSign cs; ds = takeWhile isDecimalDigit rest in
             if ds = [] then 0
             else if negative then - int (digitsValue ds) else int (digitsValue ds))
          else 0)"

definition scale10 :: "rat \<Rightarrow> int \<Rightarrow> rat" where
  "scale10 q e = (if e \<ge> 0 then q * 10 ^ nat e else q / 10 ^ nat (- e))"

definition parsePrefix :: "string \<Rightarrow> strLiteral option" where
  "parsePrefix s =
     (let (negative, body) = splitSign (trimStart s) in
      if startsWith body ''Infinity'' then Some (InfinityLiteral negative)
      else
        (let intDigits = takeWhile isDecimalDigit body;
             afterInt = dropWhile isDecimalDigit body;
             (fracDigits, afterFrac) =
               (case afterInt of
                  [] \<Rightarrow> ([], afterInt)
                | c # cs \<Rightarrow>
                    if c = CHR ''.''
                    then (takeWhile isDecimalDigit cs, dropWhile isDecimalDigit cs)
                    else ([], afterInt))
         in if intDigits = [] \<and> fracDigits = [] then None
            else Some (DecimalLiteral negative
                   (scale10 (of_nat (digitsValue intDigits)
                             + of_nat (digitsValue fracDigits) / 10 ^ length fracDigits)
                      (exponentValue afterFrac)))))"

definition numberValue :: "strLiteral \<Rightarrow> jsNumber" where
  "numberValue l =
     (case l of
        InfinityLiteral negative \<Rightarrow> if negative then NegInfinity else PosInfinity
      | DecimalLiteral negative mv \<Rightarrow>
          (case roundToDouble mv of
             None \<Rightarrow> if negative then NegInfinity else PosInfinity
           | Some r \<Rightarrow>
               if negative then (if r = 0 then NegZero else Finite (- r)) else Finite r))"

definition parseFloat :: "string \<Rightarrow> jsNumber" where
  "parseFloat s = (case parsePrefix s of None \<Rightarrow> NaN | Some l \<Rightarrow> numberValue l)"

section \<open>Grid Model (useReportData/utils.ts)\<close>

datatype cellValue = VString string | VNumber jsNumber

type_synonym FlattenedRow = "string \<rightharpoonup> cellValue"

datatype sectionType = SecProduct | SecCurrency | SecPercentage | SecGrowth | SecOther

record ColumnMetadata =
  col_id :: string
  col_name :: string
  originalKey :: string
  originalSection :: string
  col_section :: string
  col_type :: sectionType

record SectionMetadata =
  sec_name :: string
  sec_columns :: "ColumnMetadata list"
  sec_type :: sectionType



text \<open>
  \<open>cellMetadata\<close> is a \<open>Map\<close> object that the synchronization layer mutates in place
  and that shallow copies of the adapter output share: the field holds the object's
  reference, and the object's contents live in the store of the grid state.
\<close>

type_synonym metadataMap = "string \<rightharpoonup> CellMetadata"

record AdapterOutput =
  rows :: "FlattenedRow list"
  sections :: "SectionMetadata list"
  columnOrder :: "string list"
  columnMapping :: "string \<rightharpoonup> ColumnMetadata"
  cellMetadata :: nat

text \<open>
  The state of the \<open>Grid\<close> component: the selection hook's state, the five state
  variables of the edit hook, the \<open>data\<close> state of the report hook, and the store of
  \<open>Map\<close> objects with the next unused reference.
\<close>

record GridState =
  selectionState :: SelectionState
  editingCell :: "CellPosition option"
  editValue :: string
  isEditValid :: bool
  editError :: "string option"
  isSaving :: bool
  data :: AdapterOutput
  mapStore :: "nat \<Rightarrow> metadataMap"
  nextRef :: nat

text \<open>What a call to the persistence collaborator does: answer, or throw.\<close>

datatype thrown = ErrorObject string | OtherValue

datatype apiOutcome = Responds nat "string option" | Throws thrown

definition REPORT_ID :: string where
  "REPORT_ID = ''report1000''"

function numberToString :: "nat \<Rightarrow> string" where
  "numberToString n =
     (if n < 10 then [char_of (48 + n)]
      else numberToString (n div 10) @ [char_of (48 + n mod 10)])"
  by pat_completeness auto
termination
  by (relation "measure id") auto

declare numberToString.simps [simp del]

definition generateCellKey :: "string \<Rightarrow> nat \<Rightarrow> nat \<Rightarrow> string" where
  "generateCellKey reportId r c = reportId @ '':'' @ numberToString r @ '':'' @ numberToString c"

section \<open>Edit Session (useEditData)\<close>


text \<open>Reading an array element: \<open>undefined\<close> beyond the end.\<close>

definition arrayGet :: "'a list \<Rightarrow> nat \<Rightarrow> 'a option" where
  "arrayGet xs i = (if i < length xs then Some (xs ! i) else None)"

text \<open>
  Assigning an array element: beyond the end the array grows, leaving holes. A hole
  reads as \<open>undefined\<close>, and every read of a row in the hooks treats a missing row and
  a row without the requested key alike, so a hole is stored as the empty row.
\<close>

definition arraySet :: "FlattenedRow list \<Rightarrow> nat \<Rightarrow> FlattenedRow \<Rightarrow> FlattenedRow list" where
  "arraySet xs i v =
     (if i < length xs then xs[i := v]
      else xs @ replicate (i - length xs) Map.empty @ [v])"

text \<open>An \<open>undefined\<close> column identifier used as a property key is the key \<open>undefined\<close>.\<close>

definition propertyKey :: "string option \<Rightarrow> string" where
  "propertyKey k = (case k of None \<Rightarrow> ''undefined'' | Some s \<Rightarrow> s)"

definition mapSectionName :: "string \<Rightarrow> cellSection" where
  "mapSectionName name =
     (if name = ''Product'' then ProductSection
      else if includes' name ''Growth'' \<or> includes' name ''YoY'' then YoYGrowth
      else if includes' name ''Percent'' \<or> includes' name ''percent'' then PercentOfTotal
      else Values)"

text \<open>
  The edit hook's own metadata helper. Its \<open>editable\<close> and \<open>validation\<close> entries are
  not fields of \<open>CellMetadata\<close> and nothing reads them; they are left out, and with
  them the total-row test that only \<open>editable\<close> uses. \<open>sectionNameOf\<close> is its
  \<open>sectionName\<close>: the name of the first section that owns the column, \<open>Unknown\<close>
  when there is none or the name is empty. The helper does not read the metadata map.
\<close>

definition sectionNameOf :: "string option \<Rightarrow> AdapterOutput \<Rightarrow> string" where
  "sectionNameOf columnKey d =
     (case find (\<lambda>s. list_ex (\<lambda>col. Some (col_id col) = columnKey) (sec_columns s))
             (sections d) of
        None \<Rightarrow> ''Unknown''
      | Some s \<Rightarrow> if sec_name s = '''' then ''Unknown'' else sec_name s)"

definition getCellMetadata :: "CellPosition \<Rightarrow> string option \<Rightarrow> AdapterOutput \<Rightarrow> CellMetadata" where
  "getCellMetadata position columnKey d =
     (let sectionName = sectionNameOf columnKey d
      in \<lparr>type = (if includes' sectionName ''Growth'' then PercentageType
                  else if includes' sectionName ''Value'' then CurrencyType
                  else TextType),
          section' = mapSectionName sectionName,
          formatting = Some \<lparr>fmt_id = None, bold = None, italic = None, strikethrough = None,
            alignment = Some (if columnKey = Some ''product'' then AlignLeft else AlignRight),
            backgroundColor = None, textColor = None\<rparr>\<rparr>)"

record CellLookup =
  rawValue :: cellValue
  metadata :: CellMetadata
  columnKey :: "string option"
  internalColumnId :: "string option"

definition getCellData :: "CellPosition \<Rightarrow> AdapterOutput \<Rightarrow> CellLookup" where
  "getCellData position d =
     (let r = arrayGet (rows d) (row position);
          colId = arrayGet (columnOrder d) (column position);
          raw = (case r of
                   None \<Rightarrow> VString ''''
                 | Some rowObject \<Rightarrow>
                     (case rowObject (propertyKey colId) of None \<Rightarrow> VString '''' | Some v \<Rightarrow> v));
          columnMetadata = (case colId of None \<Rightarrow> None | Some c \<Rightarrow> columnMapping d c);
          original = (case columnMetadata of
                        None \<Rightarrow> colId
                      | Some cm \<Rightarrow> if originalKey cm = '''' then colId else Some (originalKey cm))
      in \<lparr>rawValue = raw, metadata = getCellMetadata position colId d,
          columnKey = original, internalColumnId = colId\<rparr>)"

definition convertValue :: "string \<Rightarrow> CellMetadata \<Rightarrow> cellValue" where
  "convertValue v md =
     (if type md = NumberType \<or> type md = CurrencyType \<or> type md = PercentageType then
        (let numValue = parseFloat v in if isNaN numValue then VString v else VNumber numValue)
      else VString v)"

text \<open>
  \<open>String(rawValue)\<close>: a string is itself; the decimal rendering of a number is the
  platform's, taken as the parameter \<open>toStr\<close>.
\<close>

definition stringOf :: "(jsNumber \<Rightarrow> string) \<Rightarrow> cellValue \<Rightarrow> string" where
  "stringOf toStr v = (case v of VString s \<Rightarrow> s | VNumber n \<Rightarrow> toStr n)"

definition startEdit :: "(jsNumber \<Rightarrow> string) \<Rightarrow> CellPosition \<Rightarrow> GridState \<Rightarrow> GridState" where
  "startEdit toStr position st =
     st\<lparr>editingCell := Some position,
        editValue := stringOf toStr (rawValue (getCellData position (data st))),
        isEditValid := True, editError := None\<rparr>"

definition cancelEdit :: "GridState \<Rightarrow> GridState" where
  "cancelEdit st = st\<lparr>editingCell := None, editValue := '''', isEditValid := True, editError := None\<rparr>"

text \<open>The optimistic copy of the data that \<open>saveEdit\<close> hands to \<open>onDataUpdate\<close>.\<close>

definition optimisticData :: "AdapterOutput \<Rightarrow> CellPosition \<Rightarrow> string option \<Rightarrow> cellValue \<Rightarrow> AdapterOutput" where
  "optimisticData d cell colId convertedValue =
     (let targetRow = (case arrayGet (rows d) (row cell) of None \<Rightarrow> Map.empty | Some rowObject \<Rightarrow> rowObject);
          targetRow' = (if colId = Some ''product'' then targetRow(''product'' \<mapsto> convertedValue)
                        else targetRow(propertyKey colId \<mapsto> convertedValue))
      in d\<lparr>rows := arraySet (rows d) (row cell) targetRow'\<rparr>)"

datatype settlement = Fulfilled | Rejected thrown

text \<open>
  An \<open>async\<close> function whose body is \<open>try\<close>/\<open>catch\<close>/\<open>finally\<close>. Each block gives the
  exception it ends with, if any, and the state at that point. The promise is
  rejected only by an exception that leaves the \<open>catch\<close> block; the \<open>finally\<close> block
  runs in every case.
\<close>

definition tryCatchFinally ::
    "('s \<Rightarrow> thrown option \<times> 's) \<Rightarrow> (thrown \<Rightarrow> 's \<Rightarrow> thrown option \<times> 's) \<Rightarrow> ('s \<Rightarrow> 's)
     \<Rightarrow> 's \<Rightarrow> settlement \<times> 's" where
  "tryCatchFinally body handler final s =
     (case body s of
        (None, s1) \<Rightarrow> (Fulfilled, final s1)
      | (Some err, s1) \<Rightarrow>
          (case handler err s1 of
             (None, s2) \<Rightarrow> (Fulfilled, final s2)
           | (Some err', s2) \<Rightarrow> (Rejected err', final s2)))"

text \<open>
  The \<open>try\<close> block of \<open>saveEdit\<close>. \<open>onDataUpdate\<close> is the report hook's \<open>setData\<close>;
  the conversion of the data to the collaborator's format only prepares the request.
\<close>

definition saveEditTry :: "apiOutcome \<Rightarrow> AdapterOutput \<Rightarrow> GridState \<Rightarrow> thrown option \<times> GridState" where
  "saveEditTry outcome newData st =
     (let st1 = st\<lparr>isSaving := True, editError := None, data := newData\<rparr> in
      case outcome of
        Throws x \<Rightarrow> (Some x, st1)
      | Responds status message \<Rightarrow>
          if status \<noteq> 200 then
            (Some (ErrorObject (case message of
                                  None \<Rightarrow> ''Failed to update report''
                                | Some m \<Rightarrow> if m = '''' then ''Failed to update report'' else m)),
             st1)
          else (None, st1\<lparr>editingCell := None, editValue := ''''\<rparr>))"

text \<open>The \<open>catch\<close> block: record the message and restore the backup.\<close>

definition saveEditCatch :: "AdapterOutput \<Rightarrow> thrown \<Rightarrow> GridState \<Rightarrow> thrown option \<times> GridState" where
  "saveEditCatch backupData err st =
     (None,
      st\<lparr>editError := Some (case err of
                              ErrorObject m \<Rightarrow> m
                            | OtherValue \<Rightarrow> ''Failed to save cell''),
         data := backupData\<rparr>)"

definition saveEdit :: "apiOutcome \<Rightarrow> GridState \<Rightarrow> settlement \<times> GridState" where
  "saveEdit outcome st =
     (case editingCell st of
        None \<Rightarrow> (Fulfilled, st)
      | Some cell \<Rightarrow>
          if \<not> isEditValid st then (Fulfilled, st)
          else
            (let found = getCellData cell (data st);
                 convertedValue = convertValue (editValue st) (metadata found);
                 backupData = data st;
                 newData = optimisticData (data st) cell (internalColumnId found) convertedValue
             in tryCatchFinally (saveEditTry outcome newData) (saveEditCatch backupData)
                  (\<lambda>s. s\<lparr>isSaving := False\<rparr>) st))"


definition isCellEditing :: "GridState \<Rightarrow> CellPosition \<Rightarrow> bool" where
  "isCellEditing st position =
     (case editingCell st of None \<Rightarrow> False | Some cell \<Rightarrow> sameCell cell position)"

section \<open>Synchronization Layer (useReportData)\<close>

text \<open>A \<open>Partial<CellFormatting>\<close>: every field may be absent.\<close>

record PartialFormatting =
  fmt_id' :: "string option"
  bold' :: "bool option"
  italic' :: "bool option"
  strikethrough' :: "bool option"
  alignment' :: "alignment option"
  backgroundColor' :: "string option"
  textColor' :: "string option"

definition noFormatting :: PartialFormatting where
  "noFormatting = \<lparr>fmt_id' = None, bold' = None, italic' = None, strikethrough' = None,
     alignment' = None, backgroundColor' = None, textColor' = None\<rparr>"

definition overlay :: "'a option \<Rightarrow> 'a option \<Rightarrow> 'a option" where
  "overlay old new = (case new of None \<Rightarrow> old | Some v \<Rightarrow> Some v)"

text \<open>The object spread \<open>{...current, ...change}\<close>.\<close>

definition mergeFormatting :: "CellFormatting \<Rightarrow> PartialFormatting \<Rightarrow> CellFormatting" where
  "mergeFormatting current change =
     \<lparr>fmt_id = overlay (fmt_id current) (fmt_id' change),
      bold = overlay (bold current) (bold' change),
      italic = overlay (italic current) (italic' change),
      strikethrough = overlay (strikethrough current) (strikethrough' change),
      alignment = overlay (alignment current) (alignment' change),
      backgroundColor = overlay (backgroundColor current) (backgroundColor' change),
      textColor = overlay (textColor current) (textColor' change)\<rparr>"

text \<open>\<open>new Map(m)\<close>: a new object with the entries of the object at \<open>r\<close>.\<close>

definition copyMap :: "nat \<Rightarrow> GridState \<Rightarrow> nat \<times> GridState" where
  "copyMap r st =
     (nextRef st,
      st\<lparr>mapStore := (mapStore st)(nextRef st := mapStore st r), nextRef := Suc (nextRef st)\<rparr>)"

text \<open>\<open>m.set(k, v)\<close> on the object at \<open>r\<close>.\<close>

definition mapSet :: "nat \<Rightarrow> string \<Rightarrow> CellMetadata \<Rightarrow> GridState \<Rightarrow> GridState" where
  "mapSet r k v st = st\<lparr>mapStore := (mapStore st)(r := (mapStore st r)(k \<mapsto> v))\<rparr>"

text \<open>
  The \<open>for\<close> loop of the batched commit. It reads through \<open>d\<close> (the hook's \<open>data\<close>) and
  writes through \<open>newData\<close>; \<open>cellUpdatesMap\<close> collects what is sent to the collaborator.
\<close>

fun batchLoop :: "string \<Rightarrow> AdapterOutput \<Rightarrow> AdapterOutput \<Rightarrow> (CellPosition \<times> PartialFormatting) list
    \<Rightarrow> GridState \<times> (string \<rightharpoonup> CellFormatting) \<Rightarrow> GridState \<times> (string \<rightharpoonup> CellFormatting)" where
  "batchLoop reportId d newData [] acc = acc"
| "batchLoop reportId d newData ((position, change) # rest) (st, cellUpdatesMap) =
     (let cellKey = generateCellKey reportId (row position) (column position) in
      case mapStore st (cellMetadata d) cellKey of
        None \<Rightarrow> batchLoop reportId d newData rest (st, cellUpdatesMap)
      | Some currentMetadata \<Rightarrow>
          (case formatting currentMetadata of
             None \<Rightarrow> batchLoop reportId d newData rest (st, cellUpdatesMap)
           | Some current \<Rightarrow>
               (let updatedFormatting = mergeFormatting current change;
                    updatedMetadata = currentMetadata\<lparr>formatting := Some updatedFormatting\<rparr>
                in batchLoop reportId d newData rest
                     (mapSet (cellMetadata newData) cellKey updatedMetadata st,
                      cellUpdatesMap(cellKey \<mapsto> updatedFormatting)))))"

definition updateMultipleCellsFormatting ::
    "string \<Rightarrow> (CellPosition \<times> PartialFormatting) list \<Rightarrow> apiOutcome \<Rightarrow> GridState \<Rightarrow> GridState" where
  "updateMultipleCellsFormatting reportId cellUpdates outcome st =
     (if cellUpdates = [] then st
      else
        (let originalData = data st;
             (originalCellMetadata, st1) = copyMap (cellMetadata (data st)) st;
             newData = data st;
             (st2, cellUpdatesMap) = batchLoop reportId (data st) newData cellUpdates (st1, Map.empty);
             st3 = st2\<lparr>data := newData\<rparr>;
             rolledBack = st3\<lparr>data := originalData\<lparr>cellMetadata := originalCellMetadata\<rparr>\<rparr>
         in case outcome of
              Responds status message \<Rightarrow> if status \<noteq> 200 then rolledBack else st3
            | Throws x \<Rightarrow> rolledBack))"

text \<open>
  The single-cell write, in its two halves: what runs before the collaborator is
  awaited (the write it prepares, if the cell has formatting), and what runs when the
  collaborator has answered. A thrown error is not caught and the state stays.
\<close>

definition prepareCellFormatting ::
    "string \<Rightarrow> nat \<Rightarrow> nat \<Rightarrow> PartialFormatting \<Rightarrow> GridState \<Rightarrow> (string \<times> CellMetadata) option" where
  "prepareCellFormatting reportId r c change st =
     (let cellKey = generateCellKey reportId r c in
      case mapStore st (cellMetadata (data st)) cellKey of
        None \<Rightarrow> None
      | Some currentMetadata \<Rightarrow>
          (case formatting currentMetadata of
             None \<Rightarrow> None
           | Some current \<Rightarrow>
               Some (cellKey, currentMetadata\<lparr>formatting := Some (mergeFormatting current change)\<rparr>)))"

definition completeCellFormatting ::
    "AdapterOutput \<Rightarrow> (string \<times> CellMetadata) option \<Rightarrow> apiOutcome \<Rightarrow> GridState \<Rightarrow> GridState" where
  "completeCellFormatting d pending outcome st =
     (case pending of
        None \<Rightarrow> st
      | Some (cellKey, updatedMetadata) \<Rightarrow>
          (case outcome of
             Throws x \<Rightarrow> st
           | Responds status message \<Rightarrow>
               if status = 200 then (mapSet (cellMetadata d) cellKey updatedMetadata st)\<lparr>data := d\<rparr>
               else st))"

definition updateCellFormatting ::
    "string \<Rightarrow> nat \<Rightarrow> nat \<Rightarrow> PartialFormatting \<Rightarrow> apiOutcome \<Rightarrow> GridState \<Rightarrow> GridState" where
  "updateCellFormatting reportId r c change outcome st =
     completeCellFormatting (data st) (prepareCellFormatting reportId r c change st) outcome st"

text \<open>
  The fallback of the formatting commands: one single-cell write per selected cell.
  The calls are issued in one synchronous pass, so each prepares its write from the
  state of that pass; the answers arrive afterwards, the \<open>i\<close>-th call receiving
  \<open>outcomes i\<close>.
\<close>

fun completeAll :: "AdapterOutput \<Rightarrow> (string \<times> CellMetadata) option list \<Rightarrow> (nat \<Rightarrow> apiOutcome)
    \<Rightarrow> nat \<Rightarrow> GridState \<Rightarrow> GridState" where
  "completeAll d [] outcomes i st = st"
| "completeAll d (pending # rest) outcomes i st =
     completeAll d rest outcomes (Suc i) (completeCellFormatting d pending (outcomes i) st)"

definition updateEachCellFormatting ::
    "string \<Rightarrow> (CellPosition \<times> PartialFormatting) list \<Rightarrow> (nat \<Rightarrow> apiOutcome) \<Rightarrow> GridState \<Rightarrow> GridState" where
  "updateEachCellFormatting reportId cellUpdates outcomes st =
     completeAll (data st)
       (map (\<lambda>(position, change).
               prepareCellFormatting reportId (row position) (column position) change st)
          cellUpdates)
       outcomes 0 st"

datatype writePath = Batch apiOutcome | Individual "nat \<Rightarrow> apiOutcome"

subsection \<open>Formatting commands (utils/formatting.ts)\<close>

definition attributeOf :: "formattingType \<Rightarrow> CellFormatting \<Rightarrow> bool option" where
  "attributeOf t f = (case t of Bold \<Rightarrow> bold f | Italic \<Rightarrow> italic f | Strikethrough \<Rightarrow> strikethrough f)"

text \<open>\<open>currentMetadata?.formatting?.[formattingType] || false\<close>\<close>

definition currentValue :: "metadataMap \<Rightarrow> formattingType \<Rightarrow> string \<Rightarrow> bool" where
  "currentValue m t cellKey =
     (case m cellKey of
        None \<Rightarrow> False
      | Some md \<Rightarrow>
          (case formatting md of
             None \<Rightarrow> False
           | Some f \<Rightarrow> (case attributeOf t f of None \<Rightarrow> False | Some b \<Rightarrow> b)))"

definition attributeChange :: "formattingType \<Rightarrow> bool \<Rightarrow> PartialFormatting" where
  "attributeChange t b =
     (case t of
        Bold \<Rightarrow> noFormatting\<lparr>bold' := Some b\<rparr>
      | Italic \<Rightarrow> noFormatting\<lparr>italic' := Some b\<rparr>
      | Strikethrough \<Rightarrow> noFormatting\<lparr>strikethrough' := Some b\<rparr>)"

text \<open>
  The \<open>Grid\<close> component passes \<open>data.cellMetadata\<close> as the \<open>cellMetadata\<close> argument and
  \<open>REPORT_ID\<close> as the report hook's identifier.
\<close>

definition applyFormattingToSelection :: "formattingType \<Rightarrow> writePath \<Rightarrow> GridState \<Rightarrow> GridState" where
  "applyFormattingToSelection t path st =
     (let selected = getSelectedCells (selectionState st);
          cellUpdates =
            map (\<lambda>cell.
                   (cell, attributeChange t
                      (\<not> currentValue (mapStore st (cellMetadata (data st))) t
                           (generateCellKey REPORT_ID (row cell) (column cell)))))
              selected
      in case path of
           Batch outcome \<Rightarrow> updateMultipleCellsFormatting REPORT_ID cellUpdates outcome st
         | Individual outcomes \<Rightarrow> updateEachCellFormatting REPORT_ID cellUpdates outcomes st)"

definition applyAlignmentToSelection :: "alignment \<Rightarrow> writePath \<Rightarrow> GridState \<Rightarrow> GridState" where
  "applyAlignmentToSelection a path st =
     (let selected = getSelectedCells (selectionState st);
          cellUpdates = map (\<lambda>cell. (cell, noFormatting\<lparr>alignment' := Some a\<rparr>)) selected
      in case path of
           Batch outcome \<Rightarrow> updateMultipleCellsFormatting REPORT_ID cellUpdates outcome st
         | Individual outcomes \<Rightarrow> updateEachCellFormatting REPORT_ID cellUpdates outcomes st)"

section \<open>Keyboard Router (useKeyboardEvents)\<close>

record KeyboardEvent =
  key :: string
  ctrlKey :: bool
  metaKey :: bool
  shiftKey :: bool

definition onSelection :: "(SelectionState \<Rightarrow> SelectionState) \<Rightarrow> GridState \<Rightarrow> GridState" where
  "onSelection f st = st\<lparr>selectionState := f (selectionState st)\<rparr>"

text \<open>
  One key event, run to the point where the collaborator call it may have started has
  settled. \<open>outcome\<close> is what that call does; the \<open>Grid\<close> component gives the router
  the batched updater, so formatting shortcuts take the batch path. \<open>moveLeft\<close> and
  \<open>moveRight\<close> stand for the clamped one-column moves that the source writes out at
  each of their uses.
\<close>

definition handleKeyDown :: "(jsNumber \<Rightarrow> string) \<Rightarrow> apiOutcome \<Rightarrow> KeyboardEvent \<Rightarrow> GridState \<Rightarrow> GridState" where
  "handleKeyDown toStr outcome e st =
     (case getCurrentCell (selectionState st) of
        None \<Rightarrow> st
      | Some currentCell \<Rightarrow>
          (let totalRows = length (rows (data st));
               totalColumns = length (columnOrder (data st));
               moveLeft = (\<lambda>s. if column currentCell > 0
                                then onSelection (selectCell (currentCell\<lparr>column := column currentCell - 1\<rparr>)) s
                                else s);
               moveRight = (\<lambda>s. if int (column currentCell) < int totalColumns - 1
                                 then onSelection (selectCell (currentCell\<lparr>column := column currentCell + 1\<rparr>)) s
                                 else s)
           in
           if editingCell st \<noteq> None then
             (if key e = ''Enter'' then
                (if isEditValid st then snd (saveEdit outcome st) else st)
              else if key e = ''Escape'' then cancelEdit st
              else if key e = ''Tab'' then
                (if isEditValid st then
                   (case saveEdit outcome st of
                      (Fulfilled, st1) \<Rightarrow> if shiftKey e then moveLeft st1 else moveRight st1
                    | (Rejected x, st1) \<Rightarrow> st1)
                 else st)
              else st)
           else
             (let k = toLowerCase (key e) in
              if (ctrlKey e \<or> metaKey e) \<and> (k = ''b'' \<or> k = ''i'') then
                (if k = ''b'' then applyFormattingToSelection Bold (Batch outcome) st
                 else applyFormattingToSelection Italic (Batch outcome) st)
              else if (ctrlKey e \<or> metaKey e) \<and> shiftKey e \<and> k = ''s'' then
                applyFormattingToSelection Strikethrough (Batch outcome) st
              else if (ctrlKey e \<or> metaKey e) \<and> shiftKey e \<and> (k = ''l'' \<or> k = ''e'' \<or> k = ''r'') then
                (if k = ''l'' then applyAlignmentToSelection AlignLeft (Batch outcome) st
                 else if k = ''e'' then applyAlignmentToSelection AlignCenter (Batch outcome) st
                 else applyAlignmentToSelection AlignRight (Batch outcome) st)
              else if key e = ''Escape'' then onSelection clearSelection st
              else if key e = ''Tab'' then
                (let (didNavigateWithinRange, sel1) =
                       navigateWithinRange (if shiftKey e then Previous else Next) (selectionState st);
                     st1 = st\<lparr>selectionState := sel1\<rparr>
                 in if \<not> didNavigateWithinRange
                    then (if shiftKey e then moveLeft st1 else moveRight st1)
                    else st1)
              else if key e = ''Enter'' \<or> key e = ''F2'' then
                (case getActiveCell (selectionState st) of
                   None \<Rightarrow> st
                 | Some active \<Rightarrow> startEdit toStr active st)
              else if key e = ''ArrowLeft'' then moveLeft st
              else if key e = ''ArrowRight'' then moveRight st
              else if key e = ''ArrowUp'' then
                (if row currentCell > 0
                 then onSelection (selectCell (currentCell\<lparr>row := row currentCell - 1\<rparr>)) st
                 else st)
              else if key e = ''ArrowDown'' then
                (if int (row currentCell) < int totalRows - 1
                 then onSelection (selectCell (currentCell\<lparr>row := row currentCell + 1\<rparr>)) st
                 else st)
              else st)))"

section \<open>Notions used to state the properties\<close>

text \<open>The cells of a box in row-major order.\<close>

definition rowMajorBox :: "nat \<Rightarrow> nat \<Rightarrow> nat \<Rightarrow> nat \<Rightarrow> CellPosition list" where
  "rowMajorBox minr maxr minc maxc =
     concat (map (\<lambda>r. map (\<lambda>c. \<lparr>row = r, column = c\<rparr>) [minc..<Suc maxc]) [minr..<Suc maxr])"

text \<open>Width and height of a range's bounding box, and the row-major rank of a cell in it.\<close>

definition boxWidth :: "CellRange \<Rightarrow> nat" where
  "boxWidth rg = maxCol rg - minCol rg + 1"

definition boxHeight :: "CellRange \<Rightarrow> nat" where
  "boxHeight rg = maxRow rg - minRow rg + 1"

definition rowMajorIndex :: "CellRange \<Rightarrow> CellPosition \<Rightarrow> nat" where
  "rowMajorIndex rg p = (row p - minRow rg) * boxWidth rg + (column p - minCol rg)"

definition navStep :: "direction \<Rightarrow> SelectionState \<Rightarrow> SelectionState" where
  "navStep dir st = snd (navigateWithinRange dir st)"

text \<open>Sequences of Selection Engine operations.\<close>

datatype selectionOp =
    SelectCell CellPosition
  | SelectRange CellPosition CellPosition
  | ToggleCellSelection CellPosition
  | StartSelection CellPosition
  | UpdateSelection CellPosition
  | EndSelection
  | ClearSelection
  | NavigateWithinRange direction

fun applyOp :: "selectionOp \<Rightarrow> SelectionState \<Rightarrow> SelectionState" where
  "applyOp (SelectCell p) st = selectCell p st"
| "applyOp (SelectRange s e) st = selectRange s e st"
| "applyOp (ToggleCellSelection p) st = toggleCellSelection p st"
| "applyOp (StartSelection p) st = startSelection p st"
| "applyOp (UpdateSelection p) st = updateSelection p st"
| "applyOp EndSelection st = endSelection st"
| "applyOp ClearSelection st = clearSelection st"
| "applyOp (NavigateWithinRange d) st = snd (navigateWithinRange d st)"

fun runOps :: "selectionOp list \<Rightarrow> SelectionState \<Rightarrow> SelectionState" where
  "runOps [] st = st"
| "runOps (op # ops) st = runOps ops (applyOp op st)"

definition rangeActiveInv :: "SelectionState \<Rightarrow> bool" where
  "rangeActiveInv st =
     (case selectedCells st of
        Some (Range rg) \<Rightarrow> (case activeCell st of None \<Rightarrow> False | Some a \<Rightarrow> inBox rg a)
      | _ \<Rightarrow> True)"

definition activeSetInv :: "SelectionState \<Rightarrow> bool" where
  "activeSetInv st = (selectedCells st = None \<or> activeCell st \<noteq> None)"

fun isToggle :: "selectionOp \<Rightarrow> bool" where
  "isToggle (ToggleCellSelection p) = True"
| "isToggle _ = False"





text \<open>A failed write: the collaborator throws or answers with a status other than 200.\<close>

definition isFailure :: "apiOutcome \<Rightarrow> bool" where
  "isFailure outcome = (case outcome of Throws x \<Rightarrow> True | Responds status message \<Rightarrow> status \<noteq> 200)"

text \<open>The metadata map the grid currently shows.\<close>

definition currentMetadataMap :: "GridState \<Rightarrow> metadataMap" where
  "currentMetadataMap st = mapStore st (cellMetadata (data st))"

definition setAttribute :: "formattingType \<Rightarrow> bool \<Rightarrow> CellFormatting \<Rightarrow> CellFormatting" where
  "setAttribute t b f =
     (case t of
        Bold \<Rightarrow> f\<lparr>bold := Some b\<rparr>
      | Italic \<Rightarrow> f\<lparr>italic := Some b\<rparr>
      | Strikethrough \<Rightarrow> f\<lparr>strikethrough := Some b\<rparr>)"

definition cellKeyOf :: "CellPosition \<Rightarrow> string" where
  "cellKeyOf cell = generateCellKey REPORT_ID (row cell) (column cell)"

text \<open>
  A one-row report with two \<open>Values\<close> columns, and a grid state over it in which
  cell \<open>(0, 0)\<close> is selected and being edited.
\<close>

definition sampleColumn :: "string \<Rightarrow> ColumnMetadata" where
  "sampleColumn year = \<lparr>col_id = ''values_'' @ year, col_name = year, originalKey = year,
     originalSection = ''Values'', col_section = ''Values'', col_type = SecCurrency\<rparr>"

definition sampleData :: AdapterOutput where
  "sampleData = \<lparr>rows = [[''values_2020'' \<mapsto> VNumber (Finite 1500),
                          ''values_2021'' \<mapsto> VNumber (Finite 1700)]],
     sections = [\<lparr>sec_name = ''Values'',
                  sec_columns = [sampleColumn ''2020'', sampleColumn ''2021''],
                  sec_type = SecCurrency\<rparr>],
     columnOrder = [''values_2020'', ''values_2021''],
     columnMapping = [''values_2020'' \<mapsto> sampleColumn ''2020'',
                      ''values_2021'' \<mapsto> sampleColumn ''2021''],
     cellMetadata = 0\<rparr>"

definition sampleFormatting :: "bool option \<Rightarrow> CellFormatting" where
  "sampleFormatting b = \<lparr>fmt_id = Some ''f'', bold = b, italic = None, strikethrough = None,
     alignment = Some AlignLeft, backgroundColor = None, textColor = None\<rparr>"

definition sampleState :: GridState where
  "sampleState = \<lparr>selectionState = selectCell \<lparr>row = 0, column = 0\<rparr> initialSelection,
     editingCell = Some \<lparr>row = 0, column = 0\<rparr>, editValue = ''1500'', isEditValid = True,
     editError = None, isSaving = False, data = sampleData,
     mapStore = (\<lambda>r. Map.empty), nextRef = 1\<rparr>"





text \<open>The sample grid with the last column's cell \<open>(0, 1)\<close> selected and being edited.\<close>

definition lastColumnState :: GridState where
  "lastColumnState = sampleState\<lparr>selectionState := selectCell \<lparr>row = 0, column = 1\<rparr> initialSelection,
     editingCell := Some \<lparr>row = 0, column = 1\<rparr>, editValue := ''1700''\<rparr>"

text \<open>The effect of one formatting change on a map entry: entries without formatting stay.\<close>

definition changeEntry :: "PartialFormatting \<Rightarrow> CellMetadata option \<Rightarrow> CellMetadata option" where
  "changeEntry change entry =
     (case entry of
        None \<Rightarrow> None
      | Some md \<Rightarrow>
          (case formatting md of
             None \<Rightarrow> Some md
           | Some f \<Rightarrow> Some (md\<lparr>formatting := Some (mergeFormatting f change)\<rparr>)))"

definition selectedKeys :: "GridState \<Rightarrow> string set" where
  "selectedKeys st = cellKeyOf ` set (getSelectedCells (selectionState st))"

text \<open>
  A grid state with three formatted cells in row 0, bold respectively off, on and
  absent, all three selected as a range.
\<close>

definition sampleCell :: "bool option \<Rightarrow> CellMetadata" where
  "sampleCell b = \<lparr>type = CurrencyType, section' = Values, formatting = Some (sampleFormatting b)\<rparr>"

definition threeCells :: metadataMap where
  "threeCells = [''report1000:0:0'' \<mapsto> sampleCell (Some False),
                 ''report1000:0:1'' \<mapsto> sampleCell (Some True),
                 ''report1000:0:2'' \<mapsto> sampleCell None]"

definition threeCellState :: GridState where
  "threeCellState = \<lparr>selectionState =
       selectRange \<lparr>row = 0, column = 0\<rparr> \<lparr>row = 0, column = 2\<rparr> initialSelection,
     editingCell = None, editValue = '''', isEditValid = True,
     editError = None, isSaving = False, data = sampleData,
     mapStore = (\<lambda>r. if r = 0 then threeCells else Map.empty), nextRef = 1\<rparr>"

definition boldOn :: PartialFormatting where
  "boldOn = noFormatting\<lparr>bold' := Some True\<rparr>"

definition threeUpdates :: "(CellPosition \<times> PartialFormatting) list" where
  "threeUpdates = [(\<lparr>row = 0, column = 0\<rparr>, boldOn), (\<lparr>row = 0, column = 1\<rparr>, boldOn),
                   (\<lparr>row = 0, column = 2\<rparr>, boldOn)]"

definition toggledOnce :: GridState where
  "toggledOnce = applyFormattingToSelection Bold (Batch (Responds 200 None)) threeCellState"

definition toggledTwice :: GridState where
  "toggledTwice = applyFormattingToSelection Bold (Batch (Responds 200 None)) toggledOnce"

definition tabKey :: KeyboardEvent where
  "tabKey = \<lparr>key = ''Tab'', ctrlKey = False, metaKey = False, shiftKey = False\<rparr>"

definition enterKey :: KeyboardEvent where
  "enterKey = \<lparr>key = ''Enter'', ctrlKey = False, metaKey = False, shiftKey = False\<rparr>"



section \<open>Selection Engine: flattening\<close>

lemma colLoop_eq:
  "colLoop r col maxc cells = cells @ map (\<lambda>c. \<lparr>row = r, column = c\<rparr>) [col..<Suc maxc]"
proof (induction r col maxc cells rule: colLoop.induct)
  case (1 r col maxc cells)
  show ?case
  proof (cases "col \<le> maxc")
    case True
    then have "[col..<Suc maxc] = col # [Suc col..<Suc maxc]"
      by (simp add: upt_conv_Cons)
    with True 1 show ?thesis by (subst colLoop.simps) simp
  next
    case False
    then show ?thesis by (subst colLoop.simps) simp
  qed
qed

lemma rowLoop_eq:
  "rowLoop r maxr minc maxc cells = cells @ rowMajorBox r maxr minc maxc"
proof (induction r maxr minc maxc cells rule: rowLoop.induct)
  case (1 r maxr minc maxc cells)
  show ?case
  proof (cases "r \<le> maxr")
    case True
    then have "[r..<Suc maxr] = r # [Suc r..<Suc maxr]"
      by (simp add: upt_conv_Cons)
    with True 1 show ?thesis by (subst rowLoop.simps) (simp add: rowMajorBox_def colLoop_eq)
  next
    case False
    then show ?thesis by (subst rowLoop.simps) (simp add: rowMajorBox_def)
  qed
qed

text \<open>
  C6. Flattening the selection after \<open>selectRange a b\<close> and after \<open>selectRange b a\<close>
  gives the same list: the cells of the min/max-normalised bounding box in row-major
  order. A single selection flattens to its one position, a multiple selection to its
  stored list as it is.
\<close>

theorem flatten_range_order_independent:
  "getSelectedCells (selectRange a b st) = getSelectedCells (selectRange b a st)
   \<and> getSelectedCells (selectRange a b st) =
       rowMajorBox (min (row a) (row b)) (max (row a) (row b))
                   (min (column a) (column b)) (max (column a) (column b))
   \<and> getSelectedCells (st\<lparr>selectedCells := Some (Single p)\<rparr>) = [p]
   \<and> getSelectedCells (st\<lparr>selectedCells := Some (Multiple ps)\<rparr>) = ps"
  by (simp add: getSelectedCells_def selectRange_def rowLoop_eq minRow_def maxRow_def
        minCol_def maxCol_def min.commute max.commute)

theorem flatten_range_order_independent_witness:
  "getSelectedCells (selectRange \<lparr>row = 1, column = 1\<rparr> \<lparr>row = 0, column = 0\<rparr> initialSelection)
     = getSelectedCells (selectRange \<lparr>row = 0, column = 0\<rparr> \<lparr>row = 1, column = 1\<rparr> initialSelection)
   \<and> getSelectedCells (selectRange \<lparr>row = 1, column = 1\<rparr> \<lparr>row = 0, column = 0\<rparr> initialSelection)
     = [\<lparr>row = 0, column = 0\<rparr>, \<lparr>row = 0, column = 1\<rparr>,
        \<lparr>row = 1, column = 0\<rparr>, \<lparr>row = 1, column = 1\<rparr>]
   \<and> getSelectedCells (initialSelection\<lparr>selectedCells := Some (Single \<lparr>row = 2, column = 3\<rparr>)\<rparr>)
     = [\<lparr>row = 2, column = 3\<rparr>]
   \<and> getSelectedCells (initialSelection\<lparr>selectedCells :=
         Some (Multiple [\<lparr>row = 2, column = 3\<rparr>, \<lparr>row = 2, column = 3\<rparr>])\<rparr>)
     = [\<lparr>row = 2, column = 3\<rparr>, \<lparr>row = 2, column = 3\<rparr>]"
proof -
  note t = flatten_range_order_independent
    [of "\<lparr>row = 1, column = 1\<rparr>" "\<lparr>row = 0, column = 0\<rparr>" initialSelection
        "\<lparr>row = 2, column = 3\<rparr>" "[\<lparr>row = 2, column = 3\<rparr>, \<lparr>row = 2, column = 3\<rparr>]"]
  from t[THEN conjunct2, THEN conjunct1] have "getSelectedCells
      (selectRange \<lparr>row = 1, column = 1\<rparr> \<lparr>row = 0, column = 0\<rparr> initialSelection)
     = [\<lparr>row = 0, column = 0\<rparr>, \<lparr>row = 0, column = 1\<rparr>,
        \<lparr>row = 1, column = 0\<rparr>, \<lparr>row = 1, column = 1\<rparr>]"
    by (simp add: rowMajorBox_def upt_conv_Cons)
  with t show ?thesis by blast
qed

section \<open>Selection Engine: navigation inside a range\<close>

lemma grid_index_less:
  fixes r c w h :: nat
  assumes "r < h" "c < w"
  shows "r * w + c < w * h"
proof -
  have "r * w + c < r * w + w" using assms by simp
  also have "\<dots> = Suc r * w" by simp
  also have "\<dots> \<le> h * w" using assms by (intro mult_le_mono1) simp
  finally show ?thesis by (simp add: mult.commute)
qed

lemma grid_index_inj:
  fixes r c r' c' w :: nat
  assumes "c < w" "c' < w" "r * w + c = r' * w + c'"
  shows "r = r' \<and> c = c'"
proof -
  have "(r * w + c) div w = r" using assms(1) by simp
  moreover have "(r' * w + c') div w = r'" using assms(2) by simp
  moreover have "(r * w + c) mod w = c" using assms(1) by simp
  moreover have "(r' * w + c') mod w = c'" using assms(2) by simp
  ultimately show ?thesis using assms(3) by metis
qed

lemma rowMajorIndex_less:
  assumes "inBox rg p"
  shows "rowMajorIndex rg p < boxWidth rg * boxHeight rg"
  unfolding rowMajorIndex_def
  by (rule grid_index_less) (use assms in \<open>auto simp: inBox_def boxHeight_def boxWidth_def\<close>)

lemma rowMajorIndex_inj:
  assumes "inBox rg p" "inBox rg q" "rowMajorIndex rg p = rowMajorIndex rg q"
  shows "p = q"
proof -
  have "column p - minCol rg < boxWidth rg" "column q - minCol rg < boxWidth rg"
    using assms by (auto simp: inBox_def boxWidth_def)
  from grid_index_inj[OF this] assms(3)
  have "row p - minRow rg = row q - minRow rg" "column p - minCol rg = column q - minCol rg"
    by (auto simp: rowMajorIndex_def)
  with assms(1,2) have "row p = row q" "column p = column q"
    by (auto simp: inBox_def)
  then show ?thesis by simp
qed

lemma navigateTarget_inBox:
  assumes "inBox rg p"
  shows "inBox rg (navigateTarget dir rg p)"
  using assms
  by (cases dir) (auto simp: navigateTarget_def inBox_def minRow_def maxRow_def minCol_def maxCol_def)

lemma next_index:
  assumes "inBox rg p"
  shows "rowMajorIndex rg (navigateTarget Next rg p) =
         (rowMajorIndex rg p + 1) mod (boxWidth rg * boxHeight rg)"
proof -
  let ?w = "boxWidth rg" and ?h = "boxHeight rg"
  have box: "minRow rg \<le> row p" "row p \<le> maxRow rg" "minCol rg \<le> column p" "column p \<le> maxCol rg"
    using assms by (auto simp: inBox_def)
  consider (right) "column p < maxCol rg"
    | (down) "column p = maxCol rg" "row p < maxRow rg"
    | (wrap) "column p = maxCol rg" "row p = maxRow rg"
    using box by linarith
  then show ?thesis
  proof cases
    case right
    then have q: "inBox rg (p\<lparr>column := column p + 1\<rparr>)"
      using box by (simp add: inBox_def)
    have "rowMajorIndex rg (navigateTarget Next rg p) = rowMajorIndex rg p + 1"
      using right box by (simp add: navigateTarget_def rowMajorIndex_def)
    moreover have "rowMajorIndex rg (p\<lparr>column := column p + 1\<rparr>) = rowMajorIndex rg p + 1"
      using right box by (simp add: rowMajorIndex_def)
    ultimately show ?thesis using rowMajorIndex_less[OF q] by simp
  next
    case down
    then have q: "inBox rg \<lparr>row = row p + 1, column = minCol rg\<rparr>"
      using box by (simp add: inBox_def)
    have e: "rowMajorIndex rg \<lparr>row = row p + 1, column = minCol rg\<rparr> = rowMajorIndex rg p + 1"
      using down box by (simp add: rowMajorIndex_def boxWidth_def Suc_diff_le)
    have "navigateTarget Next rg p = \<lparr>row = row p + 1, column = minCol rg\<rparr>"
      using down by (simp add: navigateTarget_def)
    then show ?thesis using rowMajorIndex_less[OF q] e by simp
  next
    case wrap
    have "rowMajorIndex rg p + 1 = ?w * ?h"
      using wrap box by (simp add: rowMajorIndex_def boxWidth_def boxHeight_def algebra_simps)
    moreover have "rowMajorIndex rg (navigateTarget Next rg p) = 0"
      using wrap by (simp add: navigateTarget_def rowMajorIndex_def)
    ultimately show ?thesis by simp
  qed
qed

lemma prev_next:
  assumes "inBox rg p"
  shows "navigateTarget Previous rg (navigateTarget Next rg p) = p"
  using assms
  by (auto simp: navigateTarget_def inBox_def minRow_def maxRow_def minCol_def maxCol_def)

lemma next_prev:
  assumes "inBox rg p"
  shows "navigateTarget Next rg (navigateTarget Previous rg p) = p"
  using assms
  by (auto simp: navigateTarget_def inBox_def minRow_def maxRow_def minCol_def maxCol_def)

lemma next_iterate:
  assumes "inBox rg p"
  shows "inBox rg ((navigateTarget Next rg ^^ n) p) \<and>
         rowMajorIndex rg ((navigateTarget Next rg ^^ n) p) =
           (rowMajorIndex rg p + n) mod (boxWidth rg * boxHeight rg)"
proof (induction n)
  case 0
  then show ?case using assms rowMajorIndex_less[OF assms] by simp
next
  case (Suc n)
  then show ?case
    by (simp add: navigateTarget_inBox next_index mod_Suc_eq)
qed

lemma next_full_cycle:
  assumes "inBox rg p"
  shows "(navigateTarget Next rg ^^ (boxWidth rg * boxHeight rg)) p = p"
proof -
  let ?q = "(navigateTarget Next rg ^^ (boxWidth rg * boxHeight rg)) p"
  from next_iterate[OF assms, of "boxWidth rg * boxHeight rg"]
  have "inBox rg ?q" "rowMajorIndex rg ?q = rowMajorIndex rg p"
    using rowMajorIndex_less[OF assms] by simp_all
  then show ?thesis using rowMajorIndex_inj assms by blast
qed

lemma navStep_iterate:
  assumes "selectedCells st = Some (Range rg)" "activeCell st = Some p"
  shows "(navStep dir ^^ n) st = st\<lparr>activeCell := Some ((navigateTarget dir rg ^^ n) p)\<rparr>"
proof (induction n)
  case 0
  then show ?case using assms by simp
next
  case (Suc n)
  then show ?case using assms by (simp add: navStep_def navigateWithinRange_def)
qed

lemma prev_index:
  assumes "inBox rg p"
  shows "rowMajorIndex rg (navigateTarget Previous rg p) =
         (rowMajorIndex rg p + boxWidth rg * boxHeight rg - 1) mod (boxWidth rg * boxHeight rg)"
proof -
  let ?n = "boxWidth rg * boxHeight rg" and ?q = "navigateTarget Previous rg p"
  have q: "inBox rg ?q" by (rule navigateTarget_inBox[OF assms])
  have lt: "rowMajorIndex rg ?q < ?n" by (rule rowMajorIndex_less[OF q])
  have "rowMajorIndex rg p = (rowMajorIndex rg ?q + 1) mod ?n"
    using next_index[OF q] next_prev[OF assms] by simp
  then show ?thesis
  proof (cases "rowMajorIndex rg ?q + 1 = ?n")
    case True
    with \<open>rowMajorIndex rg p = (rowMajorIndex rg ?q + 1) mod ?n\<close>
    have "rowMajorIndex rg p = 0" by simp
    with True lt show ?thesis by simp
  next
    case False
    with lt have "rowMajorIndex rg ?q + 1 < ?n" by simp
    with \<open>rowMajorIndex rg p = (rowMajorIndex rg ?q + 1) mod ?n\<close>
    have e: "rowMajorIndex rg p = rowMajorIndex rg ?q + 1" by simp
    then have "rowMajorIndex rg p + ?n - 1 = rowMajorIndex rg ?q + ?n" by simp
    with lt show ?thesis by simp
  qed
qed

text \<open>
  C5. In a state whose selection is a range and whose active cell lies inside the
  normalised bounding box (width \<open>boxWidth\<close>, height \<open>boxHeight\<close>), every call of
  \<open>navigateWithinRange\<close> returns true and only replaces the active cell; \<open>next\<close> moves it
  to the cell of the box whose row-major rank is one more, modulo the number of cells,
  \<open>previous\<close> to the one whose rank is one less; the two undo each other; and
  width times height calls of \<open>next\<close> restore the state. When the selection is not a
  range or there is no active cell, the call returns false and the state is unchanged.
\<close>

theorem navigate_row_major_cycle:
  "(selectedCells st = Some (Range rg) \<and> activeCell st = Some p \<and> inBox rg p \<longrightarrow>
      fst (navigateWithinRange dir st) = True
    \<and> navStep dir st = st\<lparr>activeCell := Some (navigateTarget dir rg p)\<rparr>
    \<and> inBox rg (navigateTarget dir rg p)
    \<and> rowMajorIndex rg (navigateTarget Next rg p) =
        (rowMajorIndex rg p + 1) mod (boxWidth rg * boxHeight rg)
    \<and> rowMajorIndex rg (navigateTarget Previous rg p) =
        (rowMajorIndex rg p + boxWidth rg * boxHeight rg - 1) mod (boxWidth rg * boxHeight rg)
    \<and> navStep Previous (navStep Next st) = st
    \<and> navStep Next (navStep Previous st) = st
    \<and> (navStep Next ^^ (boxWidth rg * boxHeight rg)) st = st)
   \<and> ((\<forall>rg. selectedCells st \<noteq> Some (Range rg)) \<or> activeCell st = None \<longrightarrow>
        navigateWithinRange dir st = (False, st))"
proof (intro conjI impI)
  assume a: "selectedCells st = Some (Range rg) \<and> activeCell st = Some p \<and> inBox rg p"
  then have s: "selectedCells st = Some (Range rg)" and ac: "activeCell st = Some p"
    and box: "inBox rg p" by simp_all
  have st: "st\<lparr>activeCell := Some p\<rparr> = st" using ac by simp
  show "fst (navigateWithinRange dir st) = True"
    using s ac by (simp add: navigateWithinRange_def)
  show "navStep dir st = st\<lparr>activeCell := Some (navigateTarget dir rg p)\<rparr>"
    using s ac by (simp add: navStep_def navigateWithinRange_def)
  show "inBox rg (navigateTarget dir rg p)" by (rule navigateTarget_inBox[OF box])
  show "rowMajorIndex rg (navigateTarget Next rg p) =
        (rowMajorIndex rg p + 1) mod (boxWidth rg * boxHeight rg)"
    by (rule next_index[OF box])
  show "rowMajorIndex rg (navigateTarget Previous rg p) =
        (rowMajorIndex rg p + boxWidth rg * boxHeight rg - 1) mod (boxWidth rg * boxHeight rg)"
    by (rule prev_index[OF box])
  have "navStep Previous (navStep Next st) =
        st\<lparr>activeCell := Some (navigateTarget Previous rg (navigateTarget Next rg p))\<rparr>"
    using s ac by (simp add: navStep_def navigateWithinRange_def)
  then show "navStep Previous (navStep Next st) = st"
    by (simp add: prev_next[OF box] st)
  have "navStep Next (navStep Previous st) =
        st\<lparr>activeCell := Some (navigateTarget Next rg (navigateTarget Previous rg p))\<rparr>"
    using s ac by (simp add: navStep_def navigateWithinRange_def)
  then show "navStep Next (navStep Previous st) = st"
    by (simp add: next_prev[OF box] st)
  show "(navStep Next ^^ (boxWidth rg * boxHeight rg)) st = st"
    by (simp add: navStep_iterate[OF s ac] next_full_cycle[OF box] st)
next
  assume "(\<forall>rg. selectedCells st \<noteq> Some (Range rg)) \<or> activeCell st = None"
  then show "navigateWithinRange dir st = (False, st)"
    by (auto simp: navigateWithinRange_def split: option.splits SelectedCells.splits)
qed

theorem navigate_row_major_cycle_witness:
  "selectedCells (selectRange \<lparr>row = 1, column = 1\<rparr> \<lparr>row = 0, column = 0\<rparr> initialSelection)
     = Some (Range \<lparr>start = \<lparr>row = 1, column = 1\<rparr>, end' = \<lparr>row = 0, column = 0\<rparr>\<rparr>)
   \<and> activeCell (selectRange \<lparr>row = 1, column = 1\<rparr> \<lparr>row = 0, column = 0\<rparr> initialSelection)
     = Some \<lparr>row = 1, column = 1\<rparr>
   \<and> inBox \<lparr>start = \<lparr>row = 1, column = 1\<rparr>, end' = \<lparr>row = 0, column = 0\<rparr>\<rparr> \<lparr>row = 1, column = 1\<rparr>
   \<and> fst (navigateWithinRange Next
         (selectRange \<lparr>row = 1, column = 1\<rparr> \<lparr>row = 0, column = 0\<rparr> initialSelection)) = True
   \<and> navStep Next (selectRange \<lparr>row = 1, column = 1\<rparr> \<lparr>row = 0, column = 0\<rparr> initialSelection)
     = (selectRange \<lparr>row = 1, column = 1\<rparr> \<lparr>row = 0, column = 0\<rparr> initialSelection)
         \<lparr>activeCell := Some \<lparr>row = 0, column = 0\<rparr>\<rparr>
   \<and> (navStep Next ^^ 4) (selectRange \<lparr>row = 1, column = 1\<rparr> \<lparr>row = 0, column = 0\<rparr> initialSelection)
     = selectRange \<lparr>row = 1, column = 1\<rparr> \<lparr>row = 0, column = 0\<rparr> initialSelection
   \<and> navigateWithinRange Next initialSelection = (False, initialSelection)"
proof -
  let ?st = "selectRange \<lparr>row = 1, column = 1\<rparr> \<lparr>row = 0, column = 0\<rparr> initialSelection"
  let ?rg = "\<lparr>start = \<lparr>row = 1, column = 1\<rparr>, end' = \<lparr>row = 0, column = 0\<rparr>\<rparr>"
  let ?p = "\<lparr>row = 1, column = 1\<rparr>"
  have h: "selectedCells ?st = Some (Range ?rg) \<and> activeCell ?st = Some ?p \<and> inBox ?rg ?p"
    by (simp add: selectRange_def inBox_def minRow_def maxRow_def minCol_def maxCol_def)
  have n: "boxWidth ?rg * boxHeight ?rg = 4"
    by (simp add: boxWidth_def boxHeight_def minRow_def maxRow_def minCol_def maxCol_def)
  have tgt: "navigateTarget Next ?rg ?p = \<lparr>row = 0, column = 0\<rparr>"
    by (simp add: navigateTarget_def minRow_def maxRow_def minCol_def maxCol_def)
  from navigate_row_major_cycle[of ?st ?rg ?p Next] h
  have "fst (navigateWithinRange Next ?st) = True"
    and "navStep Next ?st = ?st\<lparr>activeCell := Some (navigateTarget Next ?rg ?p)\<rparr>"
    and "(navStep Next ^^ (boxWidth ?rg * boxHeight ?rg)) ?st = ?st"
    by blast+
  moreover have "navigateWithinRange Next initialSelection = (False, initialSelection)"
    using navigate_row_major_cycle[of initialSelection ?rg ?p Next]
    by (simp add: initialSelection_def)
  ultimately show ?thesis using h n tgt by simp
qed

section \<open>Selection Engine: the active-cell invariant\<close>

lemma inBox_start: "inBox \<lparr>start = s, end' = e\<rparr> s"
  by (simp add: inBox_def minRow_def maxRow_def minCol_def maxCol_def)

lemma toggle_activeCell: "activeCell (toggleCellSelection p st) = activeCell st"
  by (simp add: toggleCellSelection_def Let_def split: option.splits SelectedCells.splits list.splits)

lemma toggle_not_range: "selectedCells (toggleCellSelection p st) \<noteq> Some (Range rg)"
  by (simp add: toggleCellSelection_def Let_def split: option.splits SelectedCells.splits list.splits)

text \<open>
  The range half of the invariant is kept by every operation, and the other half by
  every operation but \<open>toggleCellSelection\<close>, which keeps it only when the active cell
  is already set.
\<close>

lemma applyOp_rangeActiveInv:
  assumes "rangeActiveInv st"
  shows "rangeActiveInv (applyOp op st)"
proof (cases op)
  case (ToggleCellSelection p)
  then show ?thesis using toggle_not_range[of p st]
    by (auto simp: rangeActiveInv_def split: option.splits SelectedCells.splits)
next
  case (NavigateWithinRange d)
  then show ?thesis using assms
    by (auto simp: rangeActiveInv_def navigateWithinRange_def navigateTarget_inBox
          split: option.splits SelectedCells.splits)
qed (use assms in \<open>auto simp: rangeActiveInv_def selectCell_def selectRange_def startSelection_def
        updateSelection_def endSelection_def clearSelection_def initialSelection_def inBox_start
        split: option.splits SelectedCells.splits\<close>)

lemma applyOp_activeSetInv:
  assumes "activeSetInv st" "\<not> isToggle op \<or> activeCell st \<noteq> None"
  shows "activeSetInv (applyOp op st)"
proof (cases op)
  case (ToggleCellSelection p)
  then show ?thesis using assms(2) by (simp add: activeSetInv_def toggle_activeCell)
next
  case (NavigateWithinRange d)
  then show ?thesis using assms
    by (auto simp: activeSetInv_def navigateWithinRange_def split: option.splits SelectedCells.splits)
qed (use assms in \<open>auto simp: activeSetInv_def selectCell_def selectRange_def startSelection_def
        updateSelection_def endSelection_def clearSelection_def initialSelection_def
        split: option.splits\<close>)

lemma runOps_rangeActiveInv: "rangeActiveInv st \<Longrightarrow> rangeActiveInv (runOps ops st)"
  by (induction ops arbitrary: st) (simp_all add: applyOp_rangeActiveInv)

lemma runOps_activeSetInv:
  "activeSetInv st \<Longrightarrow> \<forall>op \<in> set ops. \<not> isToggle op \<Longrightarrow> activeSetInv (runOps ops st)"
  by (induction ops arbitrary: st) (simp_all add: applyOp_activeSetInv)

text \<open>
  C1 does not hold of the code. \<open>toggleCellSelection\<close> (a Ctrl+click) writes
  \<open>selectedCells\<close> and never \<open>activeCell\<close>. From the initial state one toggle of any
  position selects that cell and leaves the active cell unset; a second toggle of
  another cell gives a multiple selection with no active cell, for which
  \<open>getCurrentCell\<close> returns nothing.
\<close>

theorem toggle_leaves_activeCell_unset:
  "selectedCells (toggleCellSelection position initialSelection) = Some (Single position)
   \<and> activeCell (toggleCellSelection position initialSelection) = None
   \<and> selectedCells (toggleCellSelection \<lparr>row = 1, column = 1\<rparr>
        (toggleCellSelection \<lparr>row = 0, column = 0\<rparr> initialSelection))
       = Some (Multiple [\<lparr>row = 0, column = 0\<rparr>, \<lparr>row = 1, column = 1\<rparr>])
   \<and> activeCell (toggleCellSelection \<lparr>row = 1, column = 1\<rparr>
        (toggleCellSelection \<lparr>row = 0, column = 0\<rparr> initialSelection)) = None
   \<and> getCurrentCell (toggleCellSelection \<lparr>row = 1, column = 1\<rparr>
        (toggleCellSelection \<lparr>row = 0, column = 0\<rparr> initialSelection)) = None"
  by (simp add: toggleCellSelection_def initialSelection_def sameCell_def getCurrentCell_def)

section \<open>Metadata Resolver\<close>

text \<open>
  C3, as the code has it. The resolver compares the section name for equality with
  the three section titles; it does not search it for substrings. A column named
  \<open>product\<close> gets type product, section Product; otherwise the section name \<open>Values\<close>
  gives type currency, \<open>YoY Growth\<close> gives percentage in section YoY Growth,
  \<open>Percent of Total\<close> gives percentage in section Percent of Total, and every other
  name gives type text in section Values. The formatting is always left-aligned and
  carries the new identifier; in the four named cases its bold attribute is the
  total-row flag.
\<close>

theorem metadata_resolver_exact_sections:
  "type (getMetadataForCell newId c s isTotal) =
     (if c = ''product'' then ProductType
      else if s = ''Values'' then CurrencyType
      else if s = ''YoY Growth'' \<or> s = ''Percent of Total'' then PercentageType
      else TextType)
   \<and> section' (getMetadataForCell newId c s isTotal) =
     (if c = ''product'' then ProductSection
      else if s = ''YoY Growth'' then YoYGrowth
      else if s = ''Percent of Total'' then PercentOfTotal
      else Values)
   \<and> map_option alignment (formatting (getMetadataForCell newId c s isTotal)) = Some (Some AlignLeft)
   \<and> map_option fmt_id (formatting (getMetadataForCell newId c s isTotal)) = Some (Some newId)
   \<and> (c = ''product'' \<or> s = ''Values'' \<or> s = ''YoY Growth'' \<or> s = ''Percent of Total'' \<longrightarrow>
        map_option bold (formatting (getMetadataForCell newId c s isTotal)) = Some (Some isTotal))"
  by (simp add: getMetadataForCell_def)

theorem metadata_resolver_exact_sections_witness:
  "type (getMetadataForCell ''fmt-1'' ''product'' ''Values'' True) = ProductType
   \<and> section' (getMetadataForCell ''fmt-1'' ''product'' ''Values'' True) = ProductSection
   \<and> type (getMetadataForCell ''fmt-1'' ''values_2020'' ''Values'' True) = CurrencyType
   \<and> map_option bold (formatting (getMetadataForCell ''fmt-1'' ''values_2020'' ''Values'' True))
       = Some (Some True)
   \<and> type (getMetadataForCell ''fmt-1'' ''g'' ''YoY Growth'' False) = PercentageType
   \<and> section' (getMetadataForCell ''fmt-1'' ''g'' ''YoY Growth'' False) = YoYGrowth
   \<and> section' (getMetadataForCell ''fmt-1'' ''p'' ''Percent of Total'' False) = PercentOfTotal
   \<and> type (getMetadataForCell ''fmt-1'' ''u'' ''Unknown Section'' False) = TextType"
  using metadata_resolver_exact_sections[of "''fmt-1''" "''product''" "''Values''" True]
        metadata_resolver_exact_sections[of "''fmt-1''" "''values_2020''" "''Values''" True]
        metadata_resolver_exact_sections[of "''fmt-1''" "''g''" "''YoY Growth''" False]
        metadata_resolver_exact_sections[of "''fmt-1''" "''p''" "''Percent of Total''" False]
        metadata_resolver_exact_sections[of "''fmt-1''" "''u''" "''Unknown Section''" False]
  by simp

text \<open>
  C3 as stated fails: section names that contain \<open>revenue\<close> or \<open>growth\<close> resolve to
  type text in section Values.
\<close>

theorem metadata_resolver_counterexample:
  "includes' ''revenue'' ''revenue''
   \<and> type (getMetadataForCell ''fmt-1'' ''revenue_2020'' ''revenue'' False) = TextType
   \<and> includes' ''growth rate'' ''growth''
   \<and> type (getMetadataForCell ''fmt-1'' ''rate_2020'' ''growth rate'' False) = TextType
   \<and> section' (getMetadataForCell ''fmt-1'' ''rate_2020'' ''growth rate'' False) = Values"
  by (simp add: getMetadataForCell_def startsWith_def)

section \<open>Numbers: \<open>parseFloat\<close> and rounding to double\<close>
















section \<open>Edit Session\<close>

lemma sample_keys:
  "cellKeyOf \<lparr>row = 0, column = 0\<rparr> = ''report1000:0:0''"
  "cellKeyOf \<lparr>row = 0, column = 1\<rparr> = ''report1000:0:1''"
  "cellKeyOf \<lparr>row = 0, column = 2\<rparr> = ''report1000:0:2''"
  "cellKeyOf \<lparr>row = 0, column = Suc 0\<rparr> = ''report1000:0:1''"
  "generateCellKey REPORT_ID 0 0 = ''report1000:0:0''"
  "generateCellKey REPORT_ID 0 (Suc 0) = ''report1000:0:1''"
  "generateCellKey REPORT_ID 0 2 = ''report1000:0:2''"
  by code_simp+



lemma getCellData_store: "getCellData cell (data (st\<lparr>mapStore := ms\<rparr>)) = getCellData cell (data st)"
  by simp
















lemma saveEdit_open:
  assumes "editingCell st = Some cell" "isEditValid st"
  shows "saveEdit outcome st =
    (Fulfilled,
     (case saveEditTry outcome
             (optimisticData (data st) cell (internalColumnId (getCellData cell (data st)))
                (convertValue (editValue st) (metadata (getCellData cell (data st))))) st of
        (None, s1) \<Rightarrow> s1
      | (Some err, s1) \<Rightarrow> snd (saveEditCatch (data st) err s1))\<lparr>isSaving := False\<rparr>)"
  using assms
  by (simp add: saveEdit_def tryCatchFinally_def saveEditCatch_def Let_def
        split: prod.splits option.splits)

lemma saveEdit_success:
  assumes "editingCell st = Some cell" "isEditValid st"
  shows "saveEdit (Responds 200 message) st =
    (Fulfilled,
     st\<lparr>isSaving := True, editError := None,
        data := optimisticData (data st) cell (internalColumnId (getCellData cell (data st)))
                  (convertValue (editValue st) (metadata (getCellData cell (data st)))),
        editingCell := None, editValue := '''', isSaving := False\<rparr>)"
  by (simp add: saveEdit_open[OF assms] saveEditTry_def Let_def)

lemma saveEdit_failure:
  assumes "editingCell st = Some cell" "isEditValid st" "isFailure outcome"
  shows "editingCell (snd (saveEdit outcome st)) = Some cell
       \<and> editValue (snd (saveEdit outcome st)) = editValue st
       \<and> editError (snd (saveEdit outcome st)) \<noteq> None
       \<and> data (snd (saveEdit outcome st)) = data st
       \<and> isSaving (snd (saveEdit outcome st)) = False"
  using assms(1,3)
  by (cases outcome)
     (auto simp: saveEdit_open[OF assms(1,2)] saveEditTry_def saveEditCatch_def isFailure_def
        Let_def)




section \<open>Synchronization Layer\<close>

lemma batchLoop_frame:
  "\<exists>m. fst (batchLoop rid d nd ups (st, acc)) = st\<lparr>mapStore := (mapStore st)(cellMetadata nd := m)\<rparr>"
proof (induction ups arbitrary: st acc)
  case Nil
  have "st\<lparr>mapStore := (mapStore st)(cellMetadata nd := mapStore st (cellMetadata nd))\<rparr> = st"
    by simp
  then show ?case by (metis batchLoop.simps(1) fst_conv)
next
  case (Cons u ups)
  obtain position change where u: "u = (position, change)" by (cases u)
  let ?k = "generateCellKey rid (row position) (column position)"
  show ?case
  proof (cases "mapStore st (cellMetadata d) ?k")
    case None
    then show ?thesis using Cons.IH[of st acc] u by simp
  next
    case (Some md)
    show ?thesis
    proof (cases "formatting md")
      case None
      then show ?thesis using Cons.IH[of st acc] u Some by simp
    next
      case (Some f)
      let ?st1 = "mapSet (cellMetadata nd) ?k (md\<lparr>formatting := Some (mergeFormatting f change)\<rparr>) st"
      let ?acc1 = "acc(?k \<mapsto> mergeFormatting f change)"
      from Cons.IH[of ?st1 ?acc1] obtain m where
        "fst (batchLoop rid d nd ups (?st1, ?acc1)) =
           ?st1\<lparr>mapStore := (mapStore ?st1)(cellMetadata nd := m)\<rparr>" by blast
      then have "fst (batchLoop rid d nd (u # ups) (st, acc)) =
           st\<lparr>mapStore := (mapStore st)(cellMetadata nd := m)\<rparr>"
        using u \<open>mapStore st (cellMetadata d) ?k = Some md\<close> Some
        by (simp add: mapSet_def Let_def)
      then show ?thesis by blast
    qed
  qed
qed

lemma three_selected:
  "getSelectedCells (selectionState threeCellState) =
     [\<lparr>row = 0, column = 0\<rparr>, \<lparr>row = 0, column = 1\<rparr>, \<lparr>row = 0, column = 2\<rparr>]"
  by (simp add: threeCellState_def getSelectedCells_def selectRange_def rowLoop_eq rowMajorBox_def
        minRow_def maxRow_def minCol_def maxCol_def upt_conv_Cons)

lemma three_keys:
  "selectedKeys threeCellState = {''report1000:0:0'', ''report1000:0:1'', ''report1000:0:2''}"
  by (simp add: selectedKeys_def three_selected sample_keys)

lemma three_map: "currentMetadataMap threeCellState = threeCells"
  by (simp add: currentMetadataMap_def threeCellState_def sampleData_def)

text \<open>
  C2. When the snapshot \<open>Map\<close> is a new object (its reference is not yet in use) and
  the batch write throws or answers with a status other than 200, the metadata map of
  the resulting state equals the map before the call, whatever the cell updates were;
  the rest of the data and the selection are unchanged too.
\<close>

theorem failed_batch_restores_snapshot:
  "cellMetadata (data st) < nextRef st \<and> isFailure outcome \<longrightarrow>
     currentMetadataMap (updateMultipleCellsFormatting rid cellUpdates outcome st)
       = currentMetadataMap st
   \<and> (data (updateMultipleCellsFormatting rid cellUpdates outcome st))
        \<lparr>cellMetadata := cellMetadata (data st)\<rparr> = data st
   \<and> selectionState (updateMultipleCellsFormatting rid cellUpdates outcome st) = selectionState st"
proof (intro impI)
  assume a: "cellMetadata (data st) < nextRef st \<and> isFailure outcome"
  let ?r = "cellMetadata (data st)"
  show "currentMetadataMap (updateMultipleCellsFormatting rid cellUpdates outcome st)
       = currentMetadataMap st
   \<and> (data (updateMultipleCellsFormatting rid cellUpdates outcome st))
        \<lparr>cellMetadata := cellMetadata (data st)\<rparr> = data st
   \<and> selectionState (updateMultipleCellsFormatting rid cellUpdates outcome st) = selectionState st"
  proof (cases "cellUpdates = []")
    case True
    then show ?thesis by (simp add: updateMultipleCellsFormatting_def)
  next
    case False
    let ?st1 = "st\<lparr>mapStore := (mapStore st)(nextRef st := mapStore st ?r),
                   nextRef := Suc (nextRef st)\<rparr>"
    obtain st2 acc2 where bl:
      "batchLoop rid (data st) (data st) cellUpdates (?st1, Map.empty) = (st2, acc2)"
      by (cases "batchLoop rid (data st) (data st) cellUpdates (?st1, Map.empty)")
    obtain m where m: "st2 = ?st1\<lparr>mapStore := (mapStore ?st1)(?r := m)\<rparr>"
      using batchLoop_frame[of rid "data st" "data st" cellUpdates ?st1 Map.empty] bl by auto
    have "updateMultipleCellsFormatting rid cellUpdates outcome st =
            st2\<lparr>data := (data st)\<lparr>cellMetadata := nextRef st\<rparr>\<rparr>"
      using False a bl
      by (cases outcome)
         (simp_all add: updateMultipleCellsFormatting_def copyMap_def isFailure_def Let_def)
    then show ?thesis using a m by (simp add: currentMetadataMap_def)
  qed
qed

theorem failed_batch_restores_snapshot_witness:
  "cellMetadata (data threeCellState) < nextRef threeCellState
   \<and> isFailure (Responds 500 (Some ''unavailable''))
   \<and> currentMetadataMap (updateMultipleCellsFormatting REPORT_ID threeUpdates
        (Responds 500 (Some ''unavailable'')) threeCellState) = threeCells
   \<and> isFailure (Throws (ErrorObject ''offline''))
   \<and> currentMetadataMap (updateMultipleCellsFormatting REPORT_ID threeUpdates
        (Throws (ErrorObject ''offline'')) threeCellState) = threeCells
   \<and> currentMetadataMap (updateMultipleCellsFormatting REPORT_ID threeUpdates
        (Responds 200 None) threeCellState) ''report1000:0:0'' = Some (sampleCell (Some True))"
proof -
  have h: "cellMetadata (data threeCellState) < nextRef threeCellState"
    by (simp add: threeCellState_def sampleData_def)
  have f: "isFailure (Responds 500 (Some ''unavailable''))" "isFailure (Throws (ErrorObject ''offline''))"
    by (simp_all add: isFailure_def)
  have ok: "currentMetadataMap (updateMultipleCellsFormatting REPORT_ID threeUpdates
        (Responds 200 None) threeCellState) ''report1000:0:0'' = Some (sampleCell (Some True))"
    by (simp add: updateMultipleCellsFormatting_def threeUpdates_def copyMap_def mapSet_def
          threeCellState_def sampleData_def threeCells_def sample_keys currentMetadataMap_def
          sampleCell_def sampleFormatting_def mergeFormatting_def boldOn_def noFormatting_def
          overlay_def Let_def)
  from failed_batch_restores_snapshot[of threeCellState "Responds 500 (Some ''unavailable'')"
         REPORT_ID threeUpdates]
       failed_batch_restores_snapshot[of threeCellState "Throws (ErrorObject ''offline'')"
         REPORT_ID threeUpdates]
       h f ok
  show ?thesis by (simp add: three_map)
qed

lemma overlay_idem: "overlay (overlay a b) b = overlay a b"
  by (cases b) (simp_all add: overlay_def)

lemma mergeFormatting_idem: "mergeFormatting (mergeFormatting f c) c = mergeFormatting f c"
  by (simp add: mergeFormatting_def overlay_idem)

lemma changeEntry_idem: "changeEntry c (changeEntry c e) = changeEntry c e"
  by (auto simp: changeEntry_def mergeFormatting_idem split: option.splits)

lemma batchLoop_store:
  assumes nd: "cellMetadata nd = cellMetadata d"
  shows "fst (batchLoop rid d nd
                (map (\<lambda>c. (c, g (generateCellKey rid (row c) (column c)))) cells) (st, acc)) =
         st\<lparr>mapStore := (mapStore st)(cellMetadata d :=
              (\<lambda>k. if k \<in> (\<lambda>c. generateCellKey rid (row c) (column c)) ` set cells
                   then changeEntry (g k) (mapStore st (cellMetadata d) k)
                   else mapStore st (cellMetadata d) k))\<rparr>"
proof (induction cells arbitrary: st acc)
  case Nil
  have "st\<lparr>mapStore := (mapStore st)(cellMetadata d := mapStore st (cellMetadata d))\<rparr> = st"
    by simp
  then show ?case by simp
next
  case (Cons c cells)
  let ?key = "\<lambda>c. generateCellKey rid (row c) (column c)"
  let ?r = "cellMetadata d"
  let ?m = "mapStore st ?r"
  let ?K = "?key ` set cells"
  have same: "changeEntry (g (?key c)) (?m (?key c)) = ?m (?key c)"
    if "?m (?key c) = None \<or> (\<exists>md. ?m (?key c) = Some md \<and> formatting md = None)"
    using that by (auto simp: changeEntry_def)
  show ?case
  proof (cases "?m (?key c) = None \<or> (\<exists>md. ?m (?key c) = Some md \<and> formatting md = None)")
    case True
    then have step: "batchLoop rid d nd (map (\<lambda>c. (c, g (?key c))) (c # cells)) (st, acc) =
                     batchLoop rid d nd (map (\<lambda>c. (c, g (?key c))) cells) (st, acc)"
      by auto
    have "(\<lambda>k. if k \<in> ?key ` set (c # cells) then changeEntry (g k) (?m k) else ?m k) =
          (\<lambda>k. if k \<in> ?K then changeEntry (g k) (?m k) else ?m k)"
      using same[OF True] by (auto simp: fun_eq_iff)
    then show ?thesis using Cons.IH[of st acc] step by simp
  next
    case False
    then obtain md f where md: "?m (?key c) = Some md" and f: "formatting md = Some f"
      by auto
    let ?md' = "md\<lparr>formatting := Some (mergeFormatting f (g (?key c)))\<rparr>"
    let ?st1 = "mapSet (cellMetadata nd) (?key c) ?md' st"
    let ?acc1 = "acc(?key c \<mapsto> mergeFormatting f (g (?key c)))"
    have step: "batchLoop rid d nd (map (\<lambda>c. (c, g (?key c))) (c # cells)) (st, acc) =
                batchLoop rid d nd (map (\<lambda>c. (c, g (?key c))) cells) (?st1, ?acc1)"
      using md f by (simp add: Let_def)
    have m1: "mapStore ?st1 ?r = ?m(?key c \<mapsto> ?md')"
      by (simp add: mapSet_def nd)
    have ce: "changeEntry (g (?key c)) (?m (?key c)) = Some ?md'"
      using md f by (simp add: changeEntry_def)
    have eq: "(\<lambda>k. if k \<in> ?K then changeEntry (g k) ((?m(?key c \<mapsto> ?md')) k)
                   else (?m(?key c \<mapsto> ?md')) k) =
              (\<lambda>k. if k \<in> ?key ` set (c # cells) then changeEntry (g k) (?m k) else ?m k)"
    proof (rule ext)
      fix k
      show "(if k \<in> ?K then changeEntry (g k) ((?m(?key c \<mapsto> ?md')) k)
             else (?m(?key c \<mapsto> ?md')) k) =
            (if k \<in> ?key ` set (c # cells) then changeEntry (g k) (?m k) else ?m k)"
      proof (cases "k = ?key c")
        case True
        have "changeEntry (g (?key c)) (Some ?md') = Some ?md'"
          using changeEntry_idem[of "g (?key c)" "?m (?key c)"] ce by simp
        then show ?thesis using True ce by simp
      next
        case False
        then show ?thesis by auto
      qed
    qed
    have "fst (batchLoop rid d nd (map (\<lambda>c. (c, g (?key c))) (c # cells)) (st, acc)) =
          fst (batchLoop rid d nd (map (\<lambda>c. (c, g (?key c))) cells) (?st1, ?acc1))"
      by (simp only: step)
    also have "\<dots> =
          ?st1\<lparr>mapStore := (mapStore ?st1)(?r :=
              (\<lambda>k. if k \<in> ?K then changeEntry (g k) (mapStore ?st1 ?r k)
                   else mapStore ?st1 ?r k))\<rparr>"
      by (rule Cons.IH)
    also have "\<dots> = st\<lparr>mapStore := (mapStore st)(?r :=
              (\<lambda>k. if k \<in> ?K then changeEntry (g k) ((?m(?key c \<mapsto> ?md')) k)
                   else (?m(?key c \<mapsto> ?md')) k))\<rparr>"
      unfolding m1 by (simp add: mapSet_def nd)
    also have "\<dots> = st\<lparr>mapStore := (mapStore st)(?r :=
              (\<lambda>k. if k \<in> ?key ` set (c # cells) then changeEntry (g k) (?m k) else ?m k))\<rparr>"
      by (simp only: eq)
    finally show ?thesis .
  qed
qed

lemma batch_success:
  "currentMetadataMap (updateMultipleCellsFormatting rid
       (map (\<lambda>c. (c, g (generateCellKey rid (row c) (column c)))) cells) (Responds 200 message) st) =
     (\<lambda>k. if k \<in> (\<lambda>c. generateCellKey rid (row c) (column c)) ` set cells
          then changeEntry (g k) (currentMetadataMap st k) else currentMetadataMap st k)
   \<and> selectionState (updateMultipleCellsFormatting rid
       (map (\<lambda>c. (c, g (generateCellKey rid (row c) (column c)))) cells) (Responds 200 message) st)
     = selectionState st"
proof (cases "cells = []")
  case True
  then show ?thesis by (simp add: updateMultipleCellsFormatting_def)
next
  case False
  let ?r = "cellMetadata (data st)"
  let ?ups = "map (\<lambda>c. (c, g (generateCellKey rid (row c) (column c)))) cells"
  let ?st1 = "st\<lparr>mapStore := (mapStore st)(nextRef st := mapStore st ?r),
                 nextRef := Suc (nextRef st)\<rparr>"
  obtain st2 acc2 where bl: "batchLoop rid (data st) (data st) ?ups (?st1, Map.empty) = (st2, acc2)"
    by (cases "batchLoop rid (data st) (data st) ?ups (?st1, Map.empty)")
  have m1: "mapStore ?st1 ?r = mapStore st ?r" by simp
  have st2: "st2 = ?st1\<lparr>mapStore := (mapStore ?st1)(?r :=
              (\<lambda>k. if k \<in> (\<lambda>c. generateCellKey rid (row c) (column c)) ` set cells
                   then changeEntry (g k) (mapStore ?st1 ?r k)
                   else mapStore ?st1 ?r k))\<rparr>"
    using batchLoop_store[of "data st" "data st" rid g cells ?st1 Map.empty] bl by simp
  have "updateMultipleCellsFormatting rid ?ups (Responds 200 message) st = st2\<lparr>data := data st\<rparr>"
    using False bl by (simp add: updateMultipleCellsFormatting_def copyMap_def Let_def)
  then show ?thesis unfolding st2 m1 currentMetadataMap_def by simp
qed

lemma toggle_once:
  "currentMetadataMap (applyFormattingToSelection t (Batch (Responds 200 message)) st) =
     (\<lambda>k. if k \<in> selectedKeys st
          then changeEntry (attributeChange t (\<not> currentValue (currentMetadataMap st) t k))
                 (currentMetadataMap st k)
          else currentMetadataMap st k)
   \<and> selectionState (applyFormattingToSelection t (Batch (Responds 200 message)) st)
     = selectionState st"
  using batch_success[of REPORT_ID
          "\<lambda>k. attributeChange t (\<not> currentValue (currentMetadataMap st) t k)"
          "getSelectedCells (selectionState st)" message st]
  by (simp add: applyFormattingToSelection_def selectedKeys_def cellKeyOf_def
        currentMetadataMap_def Let_def)

lemma merge_attributeChange: "mergeFormatting f (attributeChange t b) = setAttribute t b f"
  by (cases t)
     (simp_all add: mergeFormatting_def attributeChange_def setAttribute_def noFormatting_def
        overlay_def)

lemma attributeOf_setAttribute: "attributeOf t (setAttribute t b f) = Some b"
  by (cases t) (simp_all add: attributeOf_def setAttribute_def)

lemma setAttribute_twice: "setAttribute t b (setAttribute t b' f) = setAttribute t b f"
  by (cases t) (simp_all add: setAttribute_def)

lemma changeEntry_formatted:
  assumes "e = Some md" "formatting md = Some f"
  shows "changeEntry (attributeChange t b) e = Some (md\<lparr>formatting := Some (setAttribute t b f)\<rparr>)"
  using assms by (simp add: changeEntry_def merge_attributeChange)

lemma changeEntry_unformatted:
  assumes "\<forall>md f. e = Some md \<longrightarrow> formatting md \<noteq> Some f"
  shows "changeEntry c e = e"
  using assms by (auto simp: changeEntry_def split: option.splits)

text \<open>
  C7. Two successive toggles of the same attribute with successful batch writes
  leave the selection as it was. For a selected cell with formatting, the first toggle
  stores the negation of the attribute's current value (absent reads as false) and
  the second stores that current value again, other fields untouched; so the
  attribute reads as before, cell by cell. Cells outside the selection and cells
  without formatting keep their entry.
\<close>

theorem toggle_twice_restores:
  "selectionState (applyFormattingToSelection t (Batch (Responds 200 msg2))
      (applyFormattingToSelection t (Batch (Responds 200 msg1)) st)) = selectionState st
   \<and> (k \<in> selectedKeys st \<and> currentMetadataMap st k = Some md \<and> formatting md = Some f \<longrightarrow>
        currentMetadataMap (applyFormattingToSelection t (Batch (Responds 200 msg1)) st) k =
          Some (md\<lparr>formatting := Some (setAttribute t (\<not> currentValue (currentMetadataMap st) t k) f)\<rparr>)
      \<and> currentValue (currentMetadataMap (applyFormattingToSelection t (Batch (Responds 200 msg1)) st)) t k
          = (\<not> currentValue (currentMetadataMap st) t k)
      \<and> currentMetadataMap (applyFormattingToSelection t (Batch (Responds 200 msg2))
            (applyFormattingToSelection t (Batch (Responds 200 msg1)) st)) k =
          Some (md\<lparr>formatting := Some (setAttribute t (currentValue (currentMetadataMap st) t k) f)\<rparr>)
      \<and> currentValue (currentMetadataMap (applyFormattingToSelection t (Batch (Responds 200 msg2))
            (applyFormattingToSelection t (Batch (Responds 200 msg1)) st))) t k
          = currentValue (currentMetadataMap st) t k)
   \<and> (k \<notin> selectedKeys st \<or> (\<forall>md f. currentMetadataMap st k = Some md \<longrightarrow> formatting md \<noteq> Some f) \<longrightarrow>
        currentMetadataMap (applyFormattingToSelection t (Batch (Responds 200 msg1)) st) k
          = currentMetadataMap st k
      \<and> currentMetadataMap (applyFormattingToSelection t (Batch (Responds 200 msg2))
            (applyFormattingToSelection t (Batch (Responds 200 msg1)) st)) k
          = currentMetadataMap st k)"
proof -
  let ?st1 = "applyFormattingToSelection t (Batch (Responds 200 msg1)) st"
  let ?st2 = "applyFormattingToSelection t (Batch (Responds 200 msg2)) ?st1"
  let ?m0 = "currentMetadataMap st" and ?m1 = "currentMetadataMap ?st1"
  let ?m2 = "currentMetadataMap ?st2"
  note t1 = toggle_once[of t msg1 st]
  note t2 = toggle_once[of t msg2 ?st1]
  have sel1: "selectionState ?st1 = selectionState st" using t1 by simp
  have keys1: "selectedKeys ?st1 = selectedKeys st" by (simp add: selectedKeys_def sel1)
  have m1: "?m1 k = (if k \<in> selectedKeys st
                     then changeEntry (attributeChange t (\<not> currentValue ?m0 t k)) (?m0 k)
                     else ?m0 k)"
    using t1 by simp
  have m2: "?m2 k = (if k \<in> selectedKeys st
                     then changeEntry (attributeChange t (\<not> currentValue ?m1 t k)) (?m1 k)
                     else ?m1 k)"
    using t2 keys1 by simp
  have A: "selectionState ?st2 = selectionState st" using t2 sel1 by simp
  have B: "?m1 k = Some (md\<lparr>formatting := Some (setAttribute t (\<not> currentValue ?m0 t k) f)\<rparr>)
         \<and> currentValue ?m1 t k = (\<not> currentValue ?m0 t k)
         \<and> ?m2 k = Some (md\<lparr>formatting := Some (setAttribute t (currentValue ?m0 t k) f)\<rparr>)
         \<and> currentValue ?m2 t k = currentValue ?m0 t k"
    if h: "k \<in> selectedKeys st \<and> ?m0 k = Some md \<and> formatting md = Some f"
  proof -
    let ?md1 = "md\<lparr>formatting := Some (setAttribute t (\<not> currentValue ?m0 t k) f)\<rparr>"
    have e1: "?m1 k = Some ?md1"
      using h m1 changeEntry_formatted[of "?m0 k" md f t] by simp
    have c1: "currentValue ?m1 t k = (\<not> currentValue ?m0 t k)"
      by (simp add: currentValue_def[of ?m1] e1 attributeOf_setAttribute)
    have f1: "formatting ?md1 = Some (setAttribute t (\<not> currentValue ?m0 t k) f)" by simp
    have e2: "?m2 k = Some (md\<lparr>formatting := Some (setAttribute t (currentValue ?m0 t k) f)\<rparr>)"
      using h m2 c1 changeEntry_formatted[of "?m1 k" ?md1 _ t, OF e1 f1]
      by (simp add: setAttribute_twice)
    have c2: "currentValue ?m2 t k = currentValue ?m0 t k"
      by (simp add: currentValue_def[of ?m2] e2 attributeOf_setAttribute)
    from e1 c1 e2 c2 show ?thesis by blast
  qed
  have C: "?m1 k = ?m0 k \<and> ?m2 k = ?m0 k"
    if h: "k \<notin> selectedKeys st \<or> (\<forall>md f. ?m0 k = Some md \<longrightarrow> formatting md \<noteq> Some f)"
  proof (cases "k \<in> selectedKeys st")
    case False
    then show ?thesis using m1 m2 by simp
  next
    case True
    with h have u: "\<forall>md f. ?m0 k = Some md \<longrightarrow> formatting md \<noteq> Some f" by simp
    have e1: "?m1 k = ?m0 k" using True m1 changeEntry_unformatted[OF u] by simp
    then have u1: "\<forall>md f. ?m1 k = Some md \<longrightarrow> formatting md \<noteq> Some f" using u by simp
    have "?m2 k = ?m1 k" using True m2 changeEntry_unformatted[OF u1] by simp
    with e1 show ?thesis by simp
  qed
  from A B C show ?thesis by blast
qed

theorem toggle_twice_restores_witness:
  "''report1000:0:0'' \<in> selectedKeys threeCellState
   \<and> currentMetadataMap threeCellState ''report1000:0:0'' = Some (sampleCell (Some False))
   \<and> currentMetadataMap threeCellState ''report1000:0:1'' = Some (sampleCell (Some True))
   \<and> currentMetadataMap threeCellState ''report1000:0:2'' = Some (sampleCell None)
   \<and> currentValue (currentMetadataMap toggledOnce) Bold ''report1000:0:0'' = True
   \<and> currentValue (currentMetadataMap toggledOnce) Bold ''report1000:0:1'' = False
   \<and> currentValue (currentMetadataMap toggledOnce) Bold ''report1000:0:2'' = True
   \<and> currentMetadataMap toggledTwice ''report1000:0:0'' = Some (sampleCell (Some False))
   \<and> currentMetadataMap toggledTwice ''report1000:0:1'' = Some (sampleCell (Some True))
   \<and> currentMetadataMap toggledTwice ''report1000:0:2'' = Some (sampleCell (Some False))
   \<and> currentMetadataMap toggledTwice ''report1000:7:7'' = None"
proof -
  have m: "currentMetadataMap threeCellState ''report1000:0:0'' = Some (sampleCell (Some False))"
          "currentMetadataMap threeCellState ''report1000:0:1'' = Some (sampleCell (Some True))"
          "currentMetadataMap threeCellState ''report1000:0:2'' = Some (sampleCell None)"
          "currentMetadataMap threeCellState ''report1000:7:7'' = None"
    by (simp_all add: three_map threeCells_def)
  have fm: "formatting (sampleCell b) = Some (sampleFormatting b)" for b
    by (simp add: sampleCell_def)
  have cv: "currentValue (currentMetadataMap threeCellState) Bold ''report1000:0:0'' = False"
           "currentValue (currentMetadataMap threeCellState) Bold ''report1000:0:1'' = True"
           "currentValue (currentMetadataMap threeCellState) Bold ''report1000:0:2'' = False"
    by (simp_all add: currentValue_def m fm attributeOf_def sampleFormatting_def)
  have sa: "(sampleCell b)\<lparr>formatting := Some (setAttribute Bold c (sampleFormatting b))\<rparr>
              = sampleCell (Some c)" for b c
    by (simp add: sampleCell_def sampleFormatting_def setAttribute_def)
  note t = toggle_twice_restores[of Bold None None threeCellState, folded toggledOnce_def toggledTwice_def]
  from t[of "''report1000:0:0''" "sampleCell (Some False)" "sampleFormatting (Some False)"]
       t[of "''report1000:0:1''" "sampleCell (Some True)" "sampleFormatting (Some True)"]
       t[of "''report1000:0:2''" "sampleCell None" "sampleFormatting None"]
       t[of "''report1000:7:7''"]
  show ?thesis
    by (simp add: three_keys m fm cv sa)
qed

section \<open>Keyboard Router\<close>

text \<open>
  C9. When \<open>getCurrentCell\<close> returns nothing, the key handler returns at once: for
  every key event and every behaviour of the collaborator the grid state (selection,
  edit session, data) is unchanged, an open edit session included.
\<close>

theorem keyboard_ignored_without_current_cell:
  "getCurrentCell (selectionState st) = None \<longrightarrow> handleKeyDown toStr outcome e st = st"
  by (simp add: handleKeyDown_def)

theorem keyboard_ignored_without_current_cell_witness:
  "getCurrentCell (selectionState (sampleState\<lparr>selectionState := initialSelection\<rparr>)) = None
   \<and> editingCell (sampleState\<lparr>selectionState := initialSelection\<rparr>) = Some \<lparr>row = 0, column = 0\<rparr>
   \<and> handleKeyDown (\<lambda>n. '''') (Responds 200 None) enterKey
        (sampleState\<lparr>selectionState := initialSelection\<rparr>)
       = sampleState\<lparr>selectionState := initialSelection\<rparr>
   \<and> handleKeyDown (\<lambda>n. '''') (Responds 200 None) tabKey
        (sampleState\<lparr>selectionState := initialSelection\<rparr>)
       = sampleState\<lparr>selectionState := initialSelection\<rparr>"
proof -
  let ?s = "sampleState\<lparr>selectionState := initialSelection\<rparr>"
  have h: "getCurrentCell (selectionState ?s) = None"
    by (simp add: getCurrentCell_def initialSelection_def)
  have e: "editingCell ?s = Some \<lparr>row = 0, column = 0\<rparr>" by (simp add: sampleState_def)
  from keyboard_ignored_without_current_cell[of ?s "\<lambda>n. ''''" "Responds 200 None" enterKey]
       keyboard_ignored_without_current_cell[of ?s "\<lambda>n. ''''" "Responds 200 None" tabKey] h e
  show ?thesis by simp
qed

lemma saveEdit_fulfilled: "fst (saveEdit outcome st) = Fulfilled"
  by (simp add: saveEdit_def tryCatchFinally_def saveEditCatch_def Let_def
        split: option.splits prod.splits)

lemma saveEditTry_selection: "selectionState (snd (saveEditTry outcome newData st)) = selectionState st"
  by (cases outcome) (simp_all add: saveEditTry_def Let_def)

lemma saveEdit_selection: "selectionState (snd (saveEdit outcome st)) = selectionState st"
proof (cases "editingCell st")
  case None
  then show ?thesis by (simp add: saveEdit_def)
next
  case (Some cell)
  show ?thesis
  proof (cases "isEditValid st")
    case False
    then show ?thesis using Some by (simp add: saveEdit_def)
  next
    case True
    let ?new = "optimisticData (data st) cell (internalColumnId (getCellData cell (data st)))
                (convertValue (editValue st) (metadata (getCellData cell (data st))))"
    obtain r s1 where t: "saveEditTry outcome ?new st = (r, s1)"
      by (cases "saveEditTry outcome ?new st")
    have "selectionState s1 = selectionState st"
      using saveEditTry_selection[of outcome ?new st] t by simp
    then show ?thesis
      by (cases r) (simp_all add: saveEdit_open[OF Some True] t saveEditCatch_def)
  qed
qed

lemma sample_tab:
  "getCurrentCell (selectionState sampleState) = Some \<lparr>row = 0, column = 0\<rparr>"
  "editingCell sampleState = Some \<lparr>row = 0, column = 0\<rparr>"
  "isEditValid sampleState"
  "key tabKey = ''Tab''"
  "\<not> shiftKey tabKey"
  "length (columnOrder (data sampleState)) = 2"
  "data sampleState = sampleData"
  "selectionState sampleState =
     \<lparr>selectedCells = Some (Single \<lparr>row = 0, column = 0\<rparr>), isSelecting = False,
      selectionStart = None, activeCell = Some \<lparr>row = 0, column = 0\<rparr>\<rparr>"
  by (simp_all add: sampleState_def getCurrentCell_def selectCell_def tabKey_def sampleData_def)

lemma last_tab:
  "getCurrentCell (selectionState lastColumnState) = Some \<lparr>row = 0, column = 1\<rparr>"
  "editingCell lastColumnState = Some \<lparr>row = 0, column = 1\<rparr>"
  "isEditValid lastColumnState"
  "length (columnOrder (data lastColumnState)) = 2"
  "data lastColumnState = sampleData"
  "selectionState lastColumnState =
     \<lparr>selectedCells = Some (Single \<lparr>row = 0, column = 1\<rparr>), isSelecting = False,
      selectionStart = None, activeCell = Some \<lparr>row = 0, column = 1\<rparr>\<rparr>"
  by (simp_all add: lastColumnState_def sampleState_def getCurrentCell_def selectCell_def
        sampleData_def)

text \<open>
  C10, as the code has it. \<open>saveEdit\<close> always resolves. In edit mode with a valid
  value and a current cell \<open>c\<close>, a Tab key press ends in the state \<open>saveEdit\<close> leaves
  (which has the selection of before), with the selection replaced by the single cell
  one column to the right of \<open>c\<close> when a column follows, with Shift by the single cell
  one column to the left when the column of \<open>c\<close> is positive, and not replaced at the
  first or last column. This holds whatever the collaborator did: after a failed
  write the session is still open on the same cell with its value, an error is
  recorded, and the data is the data before the key press. With no current cell the
  key press changes nothing.
\<close>

theorem tab_in_edit_mode_moves_after_save:
  "fst (saveEdit outcome st) = Fulfilled
   \<and> (getCurrentCell (selectionState st) = Some c \<and> editingCell st = Some cell
       \<and> isEditValid st \<and> key e = ''Tab'' \<longrightarrow>
        handleKeyDown toStr outcome e st =
          (if shiftKey e
           then (if column c > 0
                 then (snd (saveEdit outcome st))
                        \<lparr>selectionState :=
                           \<lparr>selectedCells = Some (Single \<lparr>row = row c, column = column c - 1\<rparr>),
                            isSelecting = False, selectionStart = None,
                            activeCell = Some \<lparr>row = row c, column = column c - 1\<rparr>\<rparr>\<rparr>
                 else snd (saveEdit outcome st))
           else (if column c + 1 < length (columnOrder (data st))
                 then (snd (saveEdit outcome st))
                        \<lparr>selectionState :=
                           \<lparr>selectedCells = Some (Single \<lparr>row = row c, column = column c + 1\<rparr>),
                            isSelecting = False, selectionStart = None,
                            activeCell = Some \<lparr>row = row c, column = column c + 1\<rparr>\<rparr>\<rparr>
                 else snd (saveEdit outcome st)))
      \<and> selectionState (snd (saveEdit outcome st)) = selectionState st
      \<and> (isFailure outcome \<longrightarrow>
            editingCell (handleKeyDown toStr outcome e st) = Some cell
          \<and> editValue (handleKeyDown toStr outcome e st) = editValue st
          \<and> editError (handleKeyDown toStr outcome e st) \<noteq> None
          \<and> data (handleKeyDown toStr outcome e st) = data st))
   \<and> (getCurrentCell (selectionState st) = None \<longrightarrow> handleKeyDown toStr outcome e st = st)"
proof (intro conjI impI)
  show "fst (saveEdit outcome st) = Fulfilled" by (rule saveEdit_fulfilled)
next
  assume "getCurrentCell (selectionState st) = None"
  then show "handleKeyDown toStr outcome e st = st" by (simp add: handleKeyDown_def)
next
  assume a: "getCurrentCell (selectionState st) = Some c \<and> editingCell st = Some cell
       \<and> isEditValid st \<and> key e = ''Tab''"
  obtain st1 where s: "saveEdit outcome st = (Fulfilled, st1)"
    using saveEdit_fulfilled[of outcome st] by (cases "saveEdit outcome st") simp
  have bound: "(int (column c) < int (length (columnOrder (data st))) - 1) =
               (column c + 1 < length (columnOrder (data st)))"
    by linarith
  have upd: "c\<lparr>column := n\<rparr> = \<lparr>row = row c, column = n\<rparr>" for n
    by (cases c) simp
  show move: "handleKeyDown toStr outcome e st =
          (if shiftKey e
           then (if column c > 0
                 then (snd (saveEdit outcome st))
                        \<lparr>selectionState :=
                           \<lparr>selectedCells = Some (Single \<lparr>row = row c, column = column c - 1\<rparr>),
                            isSelecting = False, selectionStart = None,
                            activeCell = Some \<lparr>row = row c, column = column c - 1\<rparr>\<rparr>\<rparr>
                 else snd (saveEdit outcome st))
           else (if column c + 1 < length (columnOrder (data st))
                 then (snd (saveEdit outcome st))
                        \<lparr>selectionState :=
                           \<lparr>selectedCells = Some (Single \<lparr>row = row c, column = column c + 1\<rparr>),
                            isSelecting = False, selectionStart = None,
                            activeCell = Some \<lparr>row = row c, column = column c + 1\<rparr>\<rparr>\<rparr>
                 else snd (saveEdit outcome st)))"
    using a s by (simp add: handleKeyDown_def Let_def onSelection_def selectCell_def bound upd)
  show "selectionState (snd (saveEdit outcome st)) = selectionState st"
    by (rule saveEdit_selection)
  assume f: "isFailure outcome"
  from a f have k: "editingCell st1 = Some cell \<and> editValue st1 = editValue st
       \<and> editError st1 \<noteq> None \<and> data st1 = data st"
    using saveEdit_failure[of st cell outcome] s by simp
  show "editingCell (handleKeyDown toStr outcome e st) = Some cell"
    using k s by (simp add: move)
  show "editValue (handleKeyDown toStr outcome e st) = editValue st"
    using k s by (simp add: move)
  show "editError (handleKeyDown toStr outcome e st) \<noteq> None"
    using k s by (simp add: move)
  show "data (handleKeyDown toStr outcome e st) = data st"
    using k s by (simp add: move)
qed

text \<open>
  On the sample grid, editing cell \<open>(0, 0)\<close>: Tab selects \<open>(0, 1)\<close> after a failed
  write, the session still open, and after a successful one, the session closed.
\<close>

theorem tab_in_edit_mode_moves_after_save_witness:
  "getCurrentCell (selectionState sampleState) = Some \<lparr>row = 0, column = 0\<rparr>
   \<and> editingCell sampleState = Some \<lparr>row = 0, column = 0\<rparr>
   \<and> isEditValid sampleState
   \<and> key tabKey = ''Tab''
   \<and> isFailure (Responds 500 (Some ''unavailable''))
   \<and> selectionState (handleKeyDown (\<lambda>n. '''') (Responds 500 (Some ''unavailable'')) tabKey sampleState)
       = \<lparr>selectedCells = Some (Single \<lparr>row = 0, column = 1\<rparr>), isSelecting = False,
          selectionStart = None, activeCell = Some \<lparr>row = 0, column = 1\<rparr>\<rparr>
   \<and> editingCell (handleKeyDown (\<lambda>n. '''') (Responds 500 (Some ''unavailable'')) tabKey sampleState)
       = Some \<lparr>row = 0, column = 0\<rparr>
   \<and> data (handleKeyDown (\<lambda>n. '''') (Responds 500 (Some ''unavailable'')) tabKey sampleState)
       = sampleData
   \<and> selectionState (handleKeyDown (\<lambda>n. '''') (Responds 200 None) tabKey sampleState)
       = \<lparr>selectedCells = Some (Single \<lparr>row = 0, column = 1\<rparr>), isSelecting = False,
          selectionStart = None, activeCell = Some \<lparr>row = 0, column = 1\<rparr>\<rparr>
   \<and> editingCell (handleKeyDown (\<lambda>n. '''') (Responds 200 None) tabKey sampleState) = None"
proof -
  let ?p = "\<lparr>row = 0, column = 0\<rparr>"
  let ?fail = "Responds 500 (Some ''unavailable'')"
  note h = sample_tab
  have f: "isFailure ?fail" by (simp add: isFailure_def)
  have ok: "editingCell (snd (saveEdit (Responds 200 None) sampleState)) = None"
    by (simp add: saveEdit_success[OF h(2) h(3)])
  have hyp: "getCurrentCell (selectionState sampleState) = Some ?p
       \<and> editingCell sampleState = Some ?p \<and> isEditValid sampleState \<and> key tabKey = ''Tab''"
    using h by simp
  note t1 = tab_in_edit_mode_moves_after_save[of ?fail sampleState ?p ?p tabKey "\<lambda>n. ''''",
              THEN conjunct2, THEN conjunct1, rule_format, OF hyp]
  note t2 = tab_in_edit_mode_moves_after_save[of "Responds 200 None" sampleState ?p ?p tabKey
              "\<lambda>n. ''''", THEN conjunct2, THEN conjunct1, rule_format, OF hyp]
  from t1 f have e1: "editingCell (handleKeyDown (\<lambda>n. '''') ?fail tabKey sampleState) = Some ?p"
    and d1: "data (handleKeyDown (\<lambda>n. '''') ?fail tabKey sampleState) = data sampleState"
    by blast+
  from t1 have "handleKeyDown (\<lambda>n. '''') ?fail tabKey sampleState =
      (snd (saveEdit ?fail sampleState))
        \<lparr>selectionState :=
           \<lparr>selectedCells = Some (Single \<lparr>row = 0, column = 1\<rparr>), isSelecting = False,
            selectionStart = None, activeCell = Some \<lparr>row = 0, column = 1\<rparr>\<rparr>\<rparr>"
    using h by simp
  then have s1: "selectionState (handleKeyDown (\<lambda>n. '''') ?fail tabKey sampleState)
      = \<lparr>selectedCells = Some (Single \<lparr>row = 0, column = 1\<rparr>), isSelecting = False,
          selectionStart = None, activeCell = Some \<lparr>row = 0, column = 1\<rparr>\<rparr>"
    by simp
  from t2 have m2: "handleKeyDown (\<lambda>n. '''') (Responds 200 None) tabKey sampleState =
      (snd (saveEdit (Responds 200 None) sampleState))
        \<lparr>selectionState :=
           \<lparr>selectedCells = Some (Single \<lparr>row = 0, column = 1\<rparr>), isSelecting = False,
            selectionStart = None, activeCell = Some \<lparr>row = 0, column = 1\<rparr>\<rparr>\<rparr>"
    using h by simp
  then have s2: "selectionState (handleKeyDown (\<lambda>n. '''') (Responds 200 None) tabKey sampleState)
      = \<lparr>selectedCells = Some (Single \<lparr>row = 0, column = 1\<rparr>), isSelecting = False,
          selectionStart = None, activeCell = Some \<lparr>row = 0, column = 1\<rparr>\<rparr>"
    by simp
  have e2: "editingCell (handleKeyDown (\<lambda>n. '''') (Responds 200 None) tabKey sampleState) = None"
    by (simp add: m2 ok)
  from h f e1 d1 s1 s2 e2 show ?thesis by simp
qed

text \<open>
  C10 as stated fails. Tab in the last column saves and moves nothing, after a
  successful write and after a failed one. With an open, valid session and no current
  cell the key press does nothing, the save included.
\<close>

theorem tab_in_edit_mode_counterexample:
  "getCurrentCell (selectionState lastColumnState) = Some \<lparr>row = 0, column = 1\<rparr>
   \<and> editingCell lastColumnState = Some \<lparr>row = 0, column = 1\<rparr>
   \<and> isEditValid lastColumnState
   \<and> key tabKey = ''Tab''
   \<and> editingCell (handleKeyDown (\<lambda>n. '''') (Responds 200 None) tabKey lastColumnState) = None
   \<and> selectionState (handleKeyDown (\<lambda>n. '''') (Responds 200 None) tabKey lastColumnState)
       = selectionState lastColumnState
   \<and> selectionState (handleKeyDown (\<lambda>n. '''') (Responds 500 None) tabKey lastColumnState)
       = selectionState lastColumnState
   \<and> selectionState lastColumnState
       = \<lparr>selectedCells = Some (Single \<lparr>row = 0, column = 1\<rparr>), isSelecting = False,
          selectionStart = None, activeCell = Some \<lparr>row = 0, column = 1\<rparr>\<rparr>
   \<and> editingCell (sampleState\<lparr>selectionState := initialSelection\<rparr>) = Some \<lparr>row = 0, column = 0\<rparr>
   \<and> isEditValid (sampleState\<lparr>selectionState := initialSelection\<rparr>)
   \<and> handleKeyDown (\<lambda>n. '''') (Responds 200 None) tabKey
        (sampleState\<lparr>selectionState := initialSelection\<rparr>)
       = sampleState\<lparr>selectionState := initialSelection\<rparr>"
proof -
  note h = last_tab
  have k: "handleKeyDown (\<lambda>n. '''') outcome tabKey lastColumnState
             = snd (saveEdit outcome lastColumnState)" for outcome
    using saveEdit_fulfilled[of outcome lastColumnState]
    by (cases "saveEdit outcome lastColumnState")
       (simp add: handleKeyDown_def h(1,2,3,4) tabKey_def Let_def)
  have ok: "editingCell (snd (saveEdit (Responds 200 None) lastColumnState)) = None"
    by (simp add: saveEdit_success[OF h(2) h(3)])
  have n: "handleKeyDown (\<lambda>n. '''') (Responds 200 None) tabKey
        (sampleState\<lparr>selectionState := initialSelection\<rparr>)
       = sampleState\<lparr>selectionState := initialSelection\<rparr>"
    by (simp add: handleKeyDown_def getCurrentCell_def initialSelection_def)
  have e: "editingCell (sampleState\<lparr>selectionState := initialSelection\<rparr>) = Some \<lparr>row = 0, column = 0\<rparr>"
    "isEditValid (sampleState\<lparr>selectionState := initialSelection\<rparr>)"
    by (simp_all add: sampleState_def)
  have t: "key tabKey = ''Tab''" by (simp add: tabKey_def)
  have s: "selectionState (handleKeyDown (\<lambda>n. '''') outcome tabKey lastColumnState)
             = selectionState lastColumnState" for outcome
    by (simp only: k saveEdit_selection)
  have o: "editingCell (handleKeyDown (\<lambda>n. '''') (Responds 200 None) tabKey lastColumnState) = None"
    by (simp only: k ok)
  from h(1,2,3) t o s[of "Responds 200 None"] s[of "Responds 500 None"] h(6) e n
  show ?thesis by (intro conjI)
qed


end
